theory Spec2Isabelle
  imports Main "HOL-Library.Sublist"
begin

section \<open>The favicon generator \<^verbatim>\<open>packages/react-ui/scripts/generate-favicons.py\<close>\<close>

text \<open>
  The script is a linear sequence of calls into the file system, the SVG rasterizer
  (\<^verbatim>\<open>cairosvg.svg2png\<close>) and the image library (\<^verbatim>\<open>PIL.Image\<close>). The embedding threads an
  explicit state through these calls: the file system, and the trace of every call and
  every printed line in the order in which the script performs them. An exception is a
  value: every operation returns \<open>Inl\<close> of the exception or \<open>Inr\<close> of its result.
\<close>

subsection \<open>Paths (\<^verbatim>\<open>pathlib.Path\<close>)\<close>

text \<open>
  An absolute path is the list of its components; the root is the empty list.
  \<^verbatim>\<open>Path.parent\<close> drops the last component (the parent of the root is the root),
  \<^verbatim>\<open>p / s\<close> appends the components of the string \<open>s\<close>, \<^verbatim>\<open>p.name\<close> is the last
  component and \<^verbatim>\<open>str(p)\<close> joins the components with slashes.
\<close>

type_synonym path = "string list"

definition parent :: "path \<Rightarrow> path" where
  "parent p = butlast p"

fun split_slash :: "string \<Rightarrow> string \<Rightarrow> string list" where
  "split_slash acc [] = (if acc = [] then [] else [acc])"
| "split_slash acc (c # cs) =
     (if c = CHR ''/'' then (if acc = [] then [] else [acc]) @ split_slash [] cs
      else split_slash (acc @ [c]) cs)"

definition joinpath :: "path \<Rightarrow> string \<Rightarrow> path" where
  "joinpath p s = (if s \<noteq> [] \<and> hd s = CHR ''/'' then split_slash [] s else p @ split_slash [] s)"

definition name :: "path \<Rightarrow> string" where
  "name p = (if p = [] then [] else last p)"

definition path_str :: "path \<Rightarrow> string" where
  "path_str p = (if p = [] then ''/'' else concat (map (\<lambda>c. CHR ''/'' # c) p))"

subsection \<open>Formatting of integers (the \<^verbatim>\<open>{size}\<close> of an f-string)\<close>

definition digit :: "nat \<Rightarrow> char" where
  "digit d = ''0123456789'' ! d"

fun str_nat :: "nat \<Rightarrow> string" where
  "str_nat n = (if n < 10 then [digit n] else str_nat (n div 10) @ [digit (n mod 10)])"

declare str_nat.simps [simp del]

subsection \<open>The world the script runs in\<close>

type_synonym bytes = "nat list"

datatype image = Image bytes

datatype node = File bytes | Dir

type_synonym filesystem = "path \<Rightarrow> node option"

text \<open>
  The exceptions a run can end with. \<open>SystemExit n\<close> is \<^verbatim>\<open>sys.exit(n)\<close>. The others are
  raised by the import of a library (an exception that is not an \<^verbatim>\<open>ImportError\<close>), by
  \<^verbatim>\<open>Path.mkdir\<close>, by the rasterizer and by the image library, and the script catches
  none of them.
\<close>

datatype exn =
  SystemExit nat | OtherImportError | MkdirError | Svg2pngError | ImageOpenError | ImageSaveError

text \<open>
  The two \<^verbatim>\<open>import\<close> statements under \<^verbatim>\<open>try\<close> either succeed, or raise
  \<^verbatim>\<open>ImportError\<close> (a package is not installed), or raise another exception (for
  instance \<^verbatim>\<open>OSError\<close>, when a package is installed and a shared library it loads is
  missing).
\<close>

datatype import_outcome = Imported | RaisesImportError | RaisesOtherError

text \<open>
  The ICO encoder either returns the bytes of the file, or fails after it has written
  some bytes (possibly none) to the target.
\<close>

datatype save_result = Saved bytes | SaveFailed bytes

text \<open>
  Every call that leaves the script, in the order of the calls: printed lines, the
  import of the two libraries, and the calls into the file system and the libraries
  with the arguments the script passes.
\<close>

datatype event =
    Print string
  | ImportLibs
  | Mkdir path
  | Exists path
  | Svg2png path path nat nat
  | ImageOpen path
  | ImageSave path "(nat \<times> nat) list" image "image list"

record state =
  fs :: filesystem
  trace :: "event list"

text \<open>
  What the script does not define is a parameter: the location of the script file
  (\<^verbatim>\<open>__file__\<close>), what the import of \<^verbatim>\<open>cairosvg\<close> and \<^verbatim>\<open>PIL\<close> does, and the three
  library functions, each of which may raise (\<open>None\<close>, and \<open>SaveFailed\<close> for the encoder).
  The rasterizer maps the source
  of the SVG and the requested width and height to the bytes of a PNG; the decoder maps
  the bytes of a file to an image; the ICO encoder maps the base image, the size hints
  and the appended images to the bytes of the ICO file.
\<close>

record env =
  script_file :: path
  import_result :: import_outcome
  svg2png :: "bytes \<Rightarrow> nat \<Rightarrow> nat \<Rightarrow> bytes option"
  image_open :: "bytes \<Rightarrow> image option"
  image_save_ico :: "image \<Rightarrow> (nat \<times> nat) list \<Rightarrow> image list \<Rightarrow> save_result"

type_synonym 'a action = "state \<Rightarrow> (exn + 'a) \<times> state"

definition return :: "'a \<Rightarrow> 'a action" where
  "return a st = (Inr a, st)"

definition raise :: "exn \<Rightarrow> 'a action" where
  "raise x st = (Inl x, st)"

definition bind :: "'a action \<Rightarrow> ('a \<Rightarrow> 'b action) \<Rightarrow> 'b action" where
  "bind m f st = (case m st of (Inl x, st') \<Rightarrow> (Inl x, st') | (Inr a, st') \<Rightarrow> f a st')"

definition log :: "event \<Rightarrow> unit action" where
  "log ev st = (Inr (), st\<lparr>trace := trace st @ [ev]\<rparr>)"

definition print :: "string \<Rightarrow> unit action" where
  "print s = log (Print s)"

definition sys_exit :: "nat \<Rightarrow> 'a action" where
  "sys_exit n = raise (SystemExit n)"

text \<open>The exit status of the process: 0 after a normal end, the argument of
  \<^verbatim>\<open>sys.exit\<close>, and 1 after an uncaught exception.\<close>

fun exit_status :: "exn + unit \<Rightarrow> nat" where
  "exit_status (Inr _) = 0"
| "exit_status (Inl (SystemExit n)) = n"
| "exit_status (Inl _) = 1"

subsection \<open>File system and library calls\<close>

definition path_exists :: "path \<Rightarrow> bool action" where
  "path_exists p = bind (log (Exists p)) (\<lambda>_ st. (Inr (fs st p \<noteq> None), st))"

definition is_file :: "filesystem \<Rightarrow> path \<Rightarrow> bool" where
  "is_file f p = (case f p of Some (File _) \<Rightarrow> True | _ \<Rightarrow> False)"

text \<open>
  \<^verbatim>\<open>Path.mkdir(parents=True, exist_ok=True)\<close>: every missing directory on the way to
  \<open>p\<close> is created; an existing directory is left alone; a regular file on the way or at
  \<open>p\<close> makes the call raise, and nothing is created.
\<close>

definition mkdir_parents :: "path \<Rightarrow> unit action" where
  "mkdir_parents p = bind (log (Mkdir p)) (\<lambda>_ st.
     if list_ex (is_file (fs st)) (prefixes p) then (Inl MkdirError, st)
     else (Inr (), st\<lparr>fs := fold (\<lambda>q f. f(q \<mapsto> Dir)) (prefixes p) (fs st)\<rparr>))"

text \<open>Writing a file creates or overwrites it.\<close>

definition write_file :: "path \<Rightarrow> bytes \<Rightarrow> unit action" where
  "write_file p b st = (Inr (), st\<lparr>fs := (fs st)(p \<mapsto> File b)\<rparr>)"

text \<open>
  \<^verbatim>\<open>cairosvg.svg2png(url=.., write_to=.., output_width=.., output_height=..)\<close> reads the
  file at \<open>url\<close>, renders it and writes the PNG to \<open>write_to\<close>. It raises when \<open>url\<close> is
  not a regular file or the rasterizer fails, and then writes nothing.
\<close>

definition cairosvg_svg2png :: "env \<Rightarrow> path \<Rightarrow> path \<Rightarrow> nat \<Rightarrow> nat \<Rightarrow> unit action" where
  "cairosvg_svg2png e url write_to output_width output_height =
     bind (log (Svg2png url write_to output_width output_height)) (\<lambda>_ st.
       case fs st url of
         Some (File src) \<Rightarrow>
           (case svg2png e src output_width output_height of
              Some png \<Rightarrow> write_file write_to png st
            | None \<Rightarrow> (Inl Svg2pngError, st))
       | _ \<Rightarrow> (Inl Svg2pngError, st))"

definition Image_open :: "env \<Rightarrow> path \<Rightarrow> image action" where
  "Image_open e p = bind (log (ImageOpen p)) (\<lambda>_ st.
     case fs st p of
       Some (File b) \<Rightarrow> (case image_open e b of Some img \<Rightarrow> (Inr img, st) | None \<Rightarrow> (Inl ImageOpenError, st))
     | _ \<Rightarrow> (Inl ImageOpenError, st))"

text \<open>
  \<^verbatim>\<open>Image.save(path, format='ICO', sizes=.., append_images=..)\<close> opens the target for
  writing, which creates it or empties it, before the encoder runs. When the encoder
  fails, the exception is raised and the target holds what had been written by then.
\<close>

definition Image_save :: "env \<Rightarrow> image \<Rightarrow> path \<Rightarrow> (nat \<times> nat) list \<Rightarrow> image list \<Rightarrow> unit action" where
  "Image_save e img p sizes append_images =
     bind (log (ImageSave p sizes img append_images)) (\<lambda>_ st.
       case image_save_ico e img sizes append_images of
         Saved b \<Rightarrow> write_file p b st
       | SaveFailed b \<Rightarrow> (Inl ImageSaveError, snd (write_file p b st)))"

subsection \<open>The script\<close>

definition SCRIPT_DIR :: "env \<Rightarrow> path" where
  "SCRIPT_DIR e = parent (script_file e)"

definition PROJECT_ROOT :: "env \<Rightarrow> path" where
  "PROJECT_ROOT e = parent (SCRIPT_DIR e)"

definition SVG_PATH :: "env \<Rightarrow> path" where
  "SVG_PATH e = joinpath (PROJECT_ROOT e) ''packages/react-ui/public/favicons/favicon.svg''"

definition FAVICON_DIR :: "env \<Rightarrow> path" where
  "FAVICON_DIR e = joinpath (PROJECT_ROOT e) ''packages/react-ui/public/favicons''"

text \<open>The dictionary \<^verbatim>\<open>PNG_SIZES\<close>, in insertion order, which is the order of iteration.\<close>

definition PNG_SIZES :: "(string \<times> nat) list" where
  "PNG_SIZES =
     [(''favicon-16x16.png'', 16),
      (''favicon-32x32.png'', 32),
      (''favicon-48x48.png'', 48),
      (''favicon-64x64.png'', 64),
      (''favicon-96x96.png'', 96),
      (''favicon-128x128.png'', 128),
      (''apple-touch-icon.png'', 180),
      (''android-chrome-192x192.png'', 192),
      (''android-chrome-512x512.png'', 512)]"

definition svg_to_png :: "env \<Rightarrow> path \<Rightarrow> path \<Rightarrow> nat \<Rightarrow> unit action" where
  "svg_to_png e svg_path png_path sz =
     bind (print (''Generating '' @ name png_path @ '' ('' @ str_nat sz @ ''x'' @ str_nat sz @ '')...''))
       (\<lambda>_. cairosvg_svg2png e svg_path png_path sz sz)"

text \<open>A \<^verbatim>\<open>for\<close> loop over a list: the first exception ends it.\<close>

fun for_each :: "('a \<Rightarrow> unit action) \<Rightarrow> 'a list \<Rightarrow> unit action" where
  "for_each body [] = return ()"
| "for_each body (x # xs) = bind (body x) (\<lambda>_. for_each body xs)"

text \<open>The loop of \<^verbatim>\<open>create_ico\<close> that probes and loads the candidate images.\<close>

fun load_images :: "env \<Rightarrow> nat list \<Rightarrow> image list \<Rightarrow> image list action" where
  "load_images e [] images = return images"
| "load_images e (sz # sizes) images =
     (let png_name = ''favicon-'' @ str_nat sz @ ''x'' @ str_nat sz @ ''.png'';
          png_path = joinpath (FAVICON_DIR e) png_name
      in bind (path_exists png_path) (\<lambda>ex.
           if ex then bind (Image_open e png_path) (\<lambda>img. load_images e sizes (images @ [img]))
           else load_images e sizes images))"

definition create_ico :: "env \<Rightarrow> (string \<times> nat) list \<Rightarrow> unit action" where
  "create_ico e png_sizes_paths =
     bind (print ''Generating favicon.ico...'') (\<lambda>_.
     let ico_path = joinpath (FAVICON_DIR e) ''favicon.ico'' in
     bind (load_images e [16, 32, 48] []) (\<lambda>images.
       if images \<noteq> [] then
         bind (Image_save e (hd images) ico_path [(16, 16), (32, 32), (48, 48)] (tl images)) (\<lambda>_.
           print (''Created '' @ name ico_path))
       else print ''Warning: Could not create ICO file - missing required PNG sizes''))"

text \<open>The last banner, with the bytes the source file has between the line break and
  the text.\<close>

definition banner :: string where
  "banner = [CHR 0x0A, CHR 0xC3, CHR 0xA2, CHR 0xC5, CHR 0x93, CHR 0xE2, CHR 0x80, CHR 0xA6]
              @ '' Favicon generation complete!''"

definition main :: "env \<Rightarrow> unit action" where
  "main e =
     bind (path_exists (SVG_PATH e)) (\<lambda>ex.
       if \<not> ex then
         bind (print (''Error: SVG source not found at '' @ path_str (SVG_PATH e))) (\<lambda>_. sys_exit 1)
       else
         bind (print (''Using SVG source: '' @ path_str (SVG_PATH e))) (\<lambda>_.
         bind (print (''Output directory: '' @ path_str (FAVICON_DIR e))) (\<lambda>_.
         bind (print '''') (\<lambda>_.
         bind (for_each (\<lambda>(filename, sz).
                 let png_path = joinpath (FAVICON_DIR e) filename
                 in svg_to_png e (SVG_PATH e) png_path sz) PNG_SIZES) (\<lambda>_.
         bind (create_ico e PNG_SIZES) (\<lambda>_.
         bind (print banner) (\<lambda>_.
         print (''Files created in: '' @ path_str (FAVICON_DIR e)))))))))"

text \<open>
  The module, run as a script: the import guard, the module-level \<^verbatim>\<open>mkdir\<close>, and the
  call of \<^verbatim>\<open>main\<close> under \<^verbatim>\<open>if __name__ == "__main__"\<close>. The guard is
  \<^verbatim>\<open>except ImportError\<close>: any other exception of the imports is not caught.
\<close>

definition script :: "env \<Rightarrow> unit action" where
  "script e =
     bind (log ImportLibs) (\<lambda>_.
       case import_result e of
         RaisesImportError \<Rightarrow>
           bind (print ''Required packages not found. Please install:'') (\<lambda>_.
           bind (print ''  pip install cairosvg pillow'') (\<lambda>_. sys_exit 1))
       | RaisesOtherError \<Rightarrow> raise OtherImportError
       | Imported \<Rightarrow>
           bind (mkdir_parents (FAVICON_DIR e)) (\<lambda>_. main e))"

definition run :: "env \<Rightarrow> filesystem \<Rightarrow> (exn + unit) \<times> state" where
  "run e f = script e \<lparr>fs = f, trace = []\<rparr>"

subsection \<open>Vocabulary of the statements\<close>

text \<open>
  The paths of the outputs, the events one table entry and the ICO step produce, the
  effect of the calls on the file system written as pure functions, and the concrete
  environments and file systems on which the theorems are evaluated.
\<close>

definition importable :: "env \<Rightarrow> bool" where
  "importable e = (import_result e = Imported)"

definition png_path :: "env \<Rightarrow> string \<Rightarrow> path" where
  "png_path e filename = FAVICON_DIR e @ [filename]"

definition ico_path :: "env \<Rightarrow> path" where
  "ico_path e = FAVICON_DIR e @ [''favicon.ico'']"

definition raster_events :: "env \<Rightarrow> string \<times> nat \<Rightarrow> event list" where
  "raster_events e = (\<lambda>(filename, sz).
     [Print (''Generating '' @ filename @ '' ('' @ str_nat sz @ ''x'' @ str_nat sz @ '')...''),
      Svg2png (SVG_PATH e) (png_path e filename) sz sz])"

definition rasterize :: "env \<Rightarrow> string \<times> nat \<Rightarrow> unit action" where
  "rasterize e = (\<lambda>(filename, sz). svg_to_png e (SVG_PATH e) (png_path e filename) sz)"

definition written :: "env \<Rightarrow> bytes \<Rightarrow> (string \<times> nat) list \<Rightarrow> filesystem \<Rightarrow> filesystem" where
  "written e src xs f =
     fold (\<lambda>(filename, sz) g.
             case svg2png e src sz sz of Some png \<Rightarrow> g(png_path e filename \<mapsto> File png) | None \<Rightarrow> g)
          xs f"

definition made_dirs :: "path \<Rightarrow> filesystem \<Rightarrow> filesystem" where
  "made_dirs p f = (\<lambda>q. if prefix q p then Some Dir else f q)"

definition mkdir_ok :: "env \<Rightarrow> filesystem \<Rightarrow> bool" where
  "mkdir_ok e f = (\<not> list_ex (is_file f) (prefixes (FAVICON_DIR e)))"

definition candidate :: "env \<Rightarrow> nat \<Rightarrow> path" where
  "candidate e sz = joinpath (FAVICON_DIR e) (''favicon-'' @ str_nat sz @ ''x'' @ str_nat sz @ ''.png'')"

definition decoded :: "env \<Rightarrow> filesystem \<Rightarrow> path \<Rightarrow> image option" where
  "decoded e f p = (case f p of Some (File b) \<Rightarrow> image_open e b | _ \<Rightarrow> None)"

definition probe_events :: "env \<Rightarrow> filesystem \<Rightarrow> nat \<Rightarrow> event list" where
  "probe_events e f sz =
     (if f (candidate e sz) = None then [Exists (candidate e sz)]
      else [Exists (candidate e sz), ImageOpen (candidate e sz)])"

definition ico_sizes :: "(nat \<times> nat) list" where
  "ico_sizes = [(16, 16), (32, 32), (48, 48)]"

declare load_images.simps(2) [simp del]

definition prologue :: "env \<Rightarrow> event list" where
  "prologue e =
     [ImportLibs, Mkdir (FAVICON_DIR e), Exists (SVG_PATH e),
      Print (''Using SVG source: '' @ path_str (SVG_PATH e)),
      Print (''Output directory: '' @ path_str (FAVICON_DIR e)),
      Print []]"

definition ico_events :: "env \<Rightarrow> image \<Rightarrow> image list \<Rightarrow> event list" where
  "ico_events e img rest =
     [Print ''Generating favicon.ico...'',
      Exists (png_path e ''favicon-16x16.png''), ImageOpen (png_path e ''favicon-16x16.png''),
      Exists (png_path e ''favicon-32x32.png''), ImageOpen (png_path e ''favicon-32x32.png''),
      Exists (png_path e ''favicon-48x48.png''), ImageOpen (png_path e ''favicon-48x48.png''),
      ImageSave (ico_path e) [(16, 16), (32, 32), (48, 48)] img rest,
      Print ''Created favicon.ico'']"

definition epilogue :: "env \<Rightarrow> event list" where
  "epilogue e = [Print banner, Print (''Files created in: '' @ path_str (FAVICON_DIR e))]"

definition example_env :: env where
  "example_env =
     \<lparr>script_file = [''repo'', ''packages'', ''react-ui'', ''scripts'', ''generate-favicons.py''],
      import_result = Imported,
      svg2png = (\<lambda>src w h. Some (src @ [w, h])),
      image_open = (\<lambda>b. Some (Image b)),
      image_save_ico = (\<lambda>img sizes rest. Saved (concat (map (\<lambda>i. case i of Image b \<Rightarrow> b) (img # rest))))\<rparr>"

definition no_libs_env :: env where
  "no_libs_env = example_env\<lparr>import_result := RaisesImportError\<rparr>"

definition os_error_env :: env where
  "os_error_env = example_env\<lparr>import_result := RaisesOtherError\<rparr>"

definition empty_fs :: filesystem where
  "empty_fs = (\<lambda>p. None)"

definition example_fs :: filesystem where
  "example_fs =
     empty_fs([''repo'', ''packages'', ''react-ui'', ''packages'', ''react-ui'', ''public'',
               ''favicons'', ''favicon.svg''] \<mapsto> File [1, 2, 3])"


fun is_save :: "event \<Rightarrow> bool" where
  "is_save (ImageSave p sizes img rest) = True"
| "is_save _ = False"


definition ico_fs :: filesystem where
  "ico_fs =
     example_fs
       ([''repo'', ''packages'', ''react-ui'', ''packages'', ''react-ui'', ''public'', ''favicons'',
         ''favicon-32x32.png''] \<mapsto> File [4, 5],
        [''repo'', ''packages'', ''react-ui'', ''packages'', ''react-ui'', ''public'', ''favicons'',
         ''favicon-48x48.png''] \<mapsto> File [6])"

fun is_svg2png :: "event \<Rightarrow> bool" where
  "is_svg2png (Svg2png url write_to w h) = True"
| "is_svg2png _ = False"

definition failing_env :: env where
  "failing_env = example_env\<lparr>svg2png := (\<lambda>src w h. if w = 48 then None else Some (src @ [w, h]))\<rparr>"

section \<open>Properties\<close>

lemma str_nat_sizes:
  "str_nat 16 = ''16''" "str_nat 32 = ''32''" "str_nat 48 = ''48''"
  by (simp_all add: str_nat.simps digit_def)

lemma split_slash_plain:
  "CHR ''/'' \<notin> set s \<Longrightarrow> split_slash acc s = (if acc @ s = [] then [] else [acc @ s])"
  by (induction s arbitrary: acc) auto

lemma joinpath_plain: "CHR ''/'' \<notin> set s \<Longrightarrow> s \<noteq> [] \<Longrightarrow> joinpath p s = p @ [s]"
  by (cases s) (auto simp: joinpath_def split_slash_plain)

lemma FAVICON_DIR_eq:
  "FAVICON_DIR e = PROJECT_ROOT e @ [''packages'', ''react-ui'', ''public'', ''favicons'']"
  by (simp add: FAVICON_DIR_def joinpath_def)

lemma SVG_PATH_eq: "SVG_PATH e = FAVICON_DIR e @ [''favicon.svg'']"
  by (simp add: SVG_PATH_def FAVICON_DIR_def joinpath_def)

lemma name_snoc: "name (p @ [s]) = s"
  by (simp add: name_def)

lemma bind_log: "bind (log ev) f st = f () (st\<lparr>trace := trace st @ [ev]\<rparr>)"
  by (simp add: bind_def log_def)

lemma bind_print: "bind (print s) f st = f () (st\<lparr>trace := trace st @ [Print s]\<rparr>)"
  by (simp add: print_def bind_log)

lemma bind_return: "bind (return a) f st = f a st"
  by (simp add: bind_def return_def)

lemma bind_Inr: "m st = (Inr a, st') \<Longrightarrow> bind m f st = f a st'"
  by (simp add: bind_def)

lemma bind_Inl: "m st = (Inl x, st') \<Longrightarrow> bind m f st = (Inl x, st')"
  by (simp add: bind_def)

lemma print_eq: "print s st = (Inr (), st\<lparr>trace := trace st @ [Print s]\<rparr>)"
  by (simp add: print_def log_def)

lemma path_exists_eq:
  "path_exists p st = (Inr (fs st p \<noteq> None), st\<lparr>trace := trace st @ [Exists p]\<rparr>)"
  by (simp add: path_exists_def bind_log)

lemma svg_to_png_eq:
  "svg_to_png e (SVG_PATH e) (png_path e n) sz st =
     (case fs st (SVG_PATH e) of
        Some (File src) \<Rightarrow>
          (case svg2png e src sz sz of
             Some png \<Rightarrow> (Inr (), \<lparr>fs = (fs st)(png_path e n \<mapsto> File png),
                                   trace = trace st @ raster_events e (n, sz)\<rparr>)
           | None \<Rightarrow> (Inl Svg2pngError, st\<lparr>trace := trace st @ raster_events e (n, sz)\<rparr>))
      | _ \<Rightarrow> (Inl Svg2pngError, st\<lparr>trace := trace st @ raster_events e (n, sz)\<rparr>))"
  by (simp add: svg_to_png_def cairosvg_svg2png_def bind_print bind_log write_file_def
      raster_events_def png_path_def name_snoc split: option.splits node.splits)

lemma for_each_cong: "(\<And>x. x \<in> set xs \<Longrightarrow> f x = g x) \<Longrightarrow> for_each f xs = for_each g xs"
  by (induction xs) simp_all

lemma for_each_append:
  "for_each body (xs @ ys) st = bind (for_each body xs) (\<lambda>_. for_each body ys) st"
proof (induction xs arbitrary: st)
  case Nil
  show ?case by (simp add: bind_return)
next
  case (Cons x xs)
  show ?case
    by (cases "body x st" rule: prod.exhaust; cases "fst (body x st)")
       (auto simp: bind_def Cons.IH split: prod.splits sum.splits)
qed

lemma table_names_plain:
  "(n, sz) \<in> set PNG_SIZES \<Longrightarrow> CHR ''/'' \<notin> set n \<and> n \<noteq> [] \<and> n \<noteq> ''favicon.svg'' \<and> n \<noteq> ''favicon.ico''"
  by (auto simp: PNG_SIZES_def)

lemma main_loop_eq:
  "for_each (\<lambda>(filename, sz).
      let png_path = joinpath (FAVICON_DIR e) filename
      in svg_to_png e (SVG_PATH e) png_path sz) PNG_SIZES = for_each (rasterize e) PNG_SIZES"
  by (rule for_each_cong) (auto simp: rasterize_def png_path_def joinpath_plain dest: table_names_plain)

lemma written_Nil: "written e src [] f = f"
  by (simp add: written_def)

lemma written_Cons:
  "written e src ((n, sz) # xs) f =
     written e src xs (case svg2png e src sz sz of Some png \<Rightarrow> f(png_path e n \<mapsto> File png) | None \<Rightarrow> f)"
  by (simp add: written_def)

lemma written_append: "written e src (xs @ ys) f = written e src ys (written e src xs f)"
  by (simp add: written_def)

lemma written_other: "p \<notin> png_path e ` fst ` set xs \<Longrightarrow> written e src xs f p = f p"
proof (induction xs arbitrary: f)
  case Nil
  show ?case by (simp add: written_Nil)
next
  case (Cons x xs)
  obtain n sz where x: "x = (n, sz)" by (cases x)
  from Cons.prems have "p \<noteq> png_path e n" and "p \<notin> png_path e ` fst ` set xs"
    by (auto simp: x)
  then show ?case
    by (simp add: x written_Cons Cons.IH split: option.splits)
qed

lemma png_path_inj: "png_path e n = png_path e m \<longleftrightarrow> n = m"
  by (simp add: png_path_def)

lemma written_at:
  "distinct (map fst xs) \<Longrightarrow> (n, sz) \<in> set xs \<Longrightarrow> svg2png e src sz sz = Some png
     \<Longrightarrow> written e src xs f (png_path e n) = Some (File png)"
proof (induction xs arbitrary: f)
  case Nil
  then show ?case by simp
next
  case (Cons x xs)
  obtain m s where x: "x = (m, s)" by (cases x)
  show ?case
  proof (cases "(n, sz) = x")
    case True
    with Cons.prems x have "n \<notin> fst ` set xs" by auto
    then have "png_path e n \<notin> png_path e ` fst ` set xs"
      by (force simp: png_path_inj)
    with True Cons.prems x show ?thesis
      by (simp add: written_Cons written_other)
  next
    case False
    with Cons.prems x have "(n, sz) \<in> set xs" "distinct (map fst xs)" by auto
    then show ?thesis
      using Cons.IH Cons.prems(3) by (simp add: x written_Cons)
  qed
qed

lemma svg_is_output [simp]:
  "SVG_PATH e = png_path e n \<longleftrightarrow> n = ''favicon.svg''"
  "png_path e n = SVG_PATH e \<longleftrightarrow> n = ''favicon.svg''"
  by (auto simp: SVG_PATH_eq png_path_def)

lemma rasterize_all_ok:
  assumes "fs st (SVG_PATH e) = Some (File src)"
    and "\<forall>(n, sz) \<in> set xs. svg2png e src sz sz \<noteq> None"
    and "\<forall>(n, sz) \<in> set xs. n \<noteq> ''favicon.svg''"
  shows "for_each (rasterize e) xs st =
           (Inr (), \<lparr>fs = written e src xs (fs st),
                     trace = trace st @ concat (map (raster_events e) xs)\<rparr>)"
  using assms
proof (induction xs arbitrary: st)
  case Nil
  show ?case by (simp add: return_def written_Nil)
next
  case (Cons x xs)
  obtain n sz where x: "x = (n, sz)" by (cases x)
  from Cons.prems obtain png where png: "svg2png e src sz sz = Some png"
    by (auto simp: x)
  let ?st1 = "\<lparr>fs = (fs st)(png_path e n \<mapsto> File png), trace = trace st @ raster_events e (n, sz)\<rparr>"
  have step: "rasterize e (n, sz) st = (Inr (), ?st1)"
    by (simp add: rasterize_def svg_to_png_eq Cons.prems(1) png)
  have "n \<noteq> ''favicon.svg''" using Cons.prems(3) by (auto simp: x)
  then have svg1: "fs ?st1 (SVG_PATH e) = Some (File src)"
    using Cons.prems(1) by simp
  have "for_each (rasterize e) xs ?st1 =
          (Inr (), \<lparr>fs = written e src xs (fs ?st1),
                    trace = trace ?st1 @ concat (map (raster_events e) xs)\<rparr>)"
    using Cons.prems(2,3) by (intro Cons.IH [OF svg1]) auto
  then show ?case
    by (simp add: bind_def step x written_Cons png)
qed

lemma rasterize_first_failure:
  assumes "fs st (SVG_PATH e) = Some (File src)"
    and "\<forall>(n, sz) \<in> set ys. svg2png e src sz sz \<noteq> None"
    and "\<forall>(n, sz) \<in> set ys. n \<noteq> ''favicon.svg''"
    and "svg2png e src s s = None"
  shows "for_each (rasterize e) (ys @ (m, s) # zs) st =
           (Inl Svg2pngError, \<lparr>fs = written e src ys (fs st),
              trace = trace st @ concat (map (raster_events e) (ys @ [(m, s)]))\<rparr>)"
proof -
  let ?st1 = "\<lparr>fs = written e src ys (fs st), trace = trace st @ concat (map (raster_events e) ys)\<rparr>"
  have ok: "for_each (rasterize e) ys st = (Inr (), ?st1)"
    by (rule rasterize_all_ok [OF assms(1-3)])
  have "SVG_PATH e \<notin> png_path e ` fst ` set ys"
    using assms(3) by (auto simp: SVG_PATH_eq png_path_def)
  then have svg1: "fs ?st1 (SVG_PATH e) = Some (File src)"
    using assms(1) by (simp add: written_other)
  have fail: "rasterize e (m, s) ?st1 =
      (Inl Svg2pngError, ?st1\<lparr>trace := trace ?st1 @ raster_events e (m, s)\<rparr>)"
    unfolding rasterize_def prod.case svg_to_png_eq svg1 using assms(4) by simp
  show ?thesis
    by (simp add: for_each_append bind_def ok fail)
qed

lemma fold_mkdir:
  "fold (\<lambda>q g. g(q \<mapsto> Dir)) qs f = (\<lambda>p. if p \<in> set qs then Some Dir else f p)"
  by (induction qs arbitrary: f) (auto simp: fun_eq_iff)

lemma mkdir_parents_eq:
  "mkdir_parents p st =
     (if list_ex (is_file (fs st)) (prefixes p)
      then (Inl MkdirError, st\<lparr>trace := trace st @ [Mkdir p]\<rparr>)
      else (Inr (), \<lparr>fs = made_dirs p (fs st), trace = trace st @ [Mkdir p]\<rparr>))"
  by (simp add: mkdir_parents_def bind_log fold_mkdir made_dirs_def in_set_prefixes)

lemma not_prefix_snoc: "\<not> prefix (d @ [n]) d"
  by (auto dest: prefix_length_le)

lemma made_dirs_below [simp]:
  "made_dirs (FAVICON_DIR e) f (png_path e n) = f (png_path e n)"
  "made_dirs (FAVICON_DIR e) f (SVG_PATH e) = f (SVG_PATH e)"
  "made_dirs (FAVICON_DIR e) f (ico_path e) = f (ico_path e)"
  by (simp_all add: made_dirs_def png_path_def SVG_PATH_eq ico_path_def not_prefix_snoc)

lemma run_import_error:
  "import_result e = RaisesImportError \<Longrightarrow>
     run e f = (Inl (SystemExit 1),
       \<lparr>fs = f, trace = [ImportLibs, Print ''Required packages not found. Please install:'',
                        Print ''  pip install cairosvg pillow'']\<rparr>)"
  by (simp add: run_def script_def bind_log bind_print sys_exit_def raise_def)

lemma run_import_other:
  "import_result e = RaisesOtherError \<Longrightarrow>
     run e f = (Inl OtherImportError, \<lparr>fs = f, trace = [ImportLibs]\<rparr>)"
  by (simp add: run_def script_def bind_log raise_def)

lemma run_not_importable:
  "\<not> importable e \<Longrightarrow>
     exit_status (fst (run e f)) = 1 \<and> fst (run e f) \<noteq> Inr () \<and> fs (snd (run e f)) = f
     \<and> (trace (snd (run e f)) = [ImportLibs]
        \<or> trace (snd (run e f)) =
             [ImportLibs, Print ''Required packages not found. Please install:'',
              Print ''  pip install cairosvg pillow''])"
  by (cases "import_result e") (simp_all add: importable_def run_import_error run_import_other)

lemma run_mkdir_fails:
  "importable e \<Longrightarrow> \<not> mkdir_ok e f \<Longrightarrow>
     run e f = (Inl MkdirError, \<lparr>fs = f, trace = [ImportLibs, Mkdir (FAVICON_DIR e)]\<rparr>)"
  by (simp add: importable_def run_def script_def bind_log bind_def [of "mkdir_parents _"]
      mkdir_parents_eq mkdir_ok_def)

lemma run_main:
  "importable e \<Longrightarrow> mkdir_ok e f \<Longrightarrow>
     run e f = main e \<lparr>fs = made_dirs (FAVICON_DIR e) f, trace = [ImportLibs, Mkdir (FAVICON_DIR e)]\<rparr>"
  by (simp add: importable_def run_def script_def bind_log bind_def [of "mkdir_parents _"]
      mkdir_parents_eq mkdir_ok_def)

lemma main_missing:
  "fs st (SVG_PATH e) = None \<Longrightarrow>
     main e st = (Inl (SystemExit 1),
       st\<lparr>trace := trace st @ [Exists (SVG_PATH e),
              Print (''Error: SVG source not found at '' @ path_str (SVG_PATH e))]\<rparr>)"
  by (simp add: main_def bind_def path_exists_eq print_eq sys_exit_def raise_def)

lemma main_present:
  "fs st (SVG_PATH e) \<noteq> None \<Longrightarrow>
     main e st =
       bind (for_each (rasterize e) PNG_SIZES) (\<lambda>_.
       bind (create_ico e PNG_SIZES) (\<lambda>_.
       bind (print banner) (\<lambda>_.
       print (''Files created in: '' @ path_str (FAVICON_DIR e)))))
       (st\<lparr>trace := trace st @ [Exists (SVG_PATH e),
              Print (''Using SVG source: '' @ path_str (SVG_PATH e)),
              Print (''Output directory: '' @ path_str (FAVICON_DIR e)),
              Print []]\<rparr>)"
  unfolding main_def main_loop_eq
  by (simp add: bind_def [of "path_exists _"] bind_print path_exists_eq)

lemma candidate_eq:
  "candidate e 16 = png_path e ''favicon-16x16.png''"
  "candidate e 32 = png_path e ''favicon-32x32.png''"
  "candidate e 48 = png_path e ''favicon-48x48.png''"
  by (simp_all add: candidate_def str_nat_sizes joinpath_plain png_path_def)

lemma Image_open_eq:
  "Image_open e p st =
     (case decoded e (fs st) p of
        Some img \<Rightarrow> (Inr img, st\<lparr>trace := trace st @ [ImageOpen p]\<rparr>)
      | None \<Rightarrow> (Inl ImageOpenError, st\<lparr>trace := trace st @ [ImageOpen p]\<rparr>))"
  by (simp add: Image_open_def bind_log decoded_def split: option.splits node.splits)

lemma load_images_Cons:
  "load_images e (sz # szs) acc st =
     (if fs st (candidate e sz) = None
      then load_images e szs acc (st\<lparr>trace := trace st @ [Exists (candidate e sz)]\<rparr>)
      else case decoded e (fs st) (candidate e sz) of
             Some img \<Rightarrow> load_images e szs (acc @ [img])
                 (st\<lparr>trace := trace st @ [Exists (candidate e sz), ImageOpen (candidate e sz)]\<rparr>)
           | None \<Rightarrow> (Inl ImageOpenError,
                 st\<lparr>trace := trace st @ [Exists (candidate e sz), ImageOpen (candidate e sz)]\<rparr>))"
  by (simp add: load_images.simps(2) candidate_def bind_def path_exists_eq Image_open_eq Let_def
      split: option.splits)

lemma load_images_agree:
  assumes "\<forall>sz \<in> set szs. fs st (candidate e sz) = fs st' (candidate e sz)"
  shows "\<exists>r evs. load_images e szs acc st = (r, st\<lparr>trace := trace st @ evs\<rparr>)
               \<and> load_images e szs acc st' = (r, st'\<lparr>trace := trace st' @ evs\<rparr>)"
  using assms
proof (induction szs arbitrary: acc st st')
  case Nil
  show ?case by (simp add: return_def) (rule exI [of _ "[]"], simp)
next
  case (Cons sz szs)
  let ?c = "candidate e sz"
  have same: "fs st ?c = fs st' ?c" using Cons.prems by simp
  then have dec: "decoded e (fs st') ?c = decoded e (fs st) ?c"
    by (simp add: decoded_def)
  show ?case
  proof (cases "fs st ?c = None")
    case True
    then have True': "fs st' ?c = None" using same by simp
    let ?s = "st\<lparr>trace := trace st @ [Exists ?c]\<rparr>"
    let ?s' = "st'\<lparr>trace := trace st' @ [Exists ?c]\<rparr>"
    have "\<forall>sz \<in> set szs. fs ?s (candidate e sz) = fs ?s' (candidate e sz)"
      using Cons.prems by simp
    from Cons.IH [OF this, of acc] obtain r evs where
      "load_images e szs acc ?s = (r, ?s\<lparr>trace := trace ?s @ evs\<rparr>)"
      "load_images e szs acc ?s' = (r, ?s'\<lparr>trace := trace ?s' @ evs\<rparr>)" by blast
    then show ?thesis
      by (intro exI [of _ r] exI [of _ "Exists ?c # evs"]) (simp add: load_images_Cons True True')
  next
    case False
    then have False': "fs st' ?c \<noteq> None" using same by simp
    show ?thesis
    proof (cases "decoded e (fs st) ?c")
      case None
      then show ?thesis
        by (intro exI [of _ "Inl ImageOpenError"] exI [of _ "[Exists ?c, ImageOpen ?c]"])
           (simp add: load_images_Cons False False' dec)
    next
      case (Some img)
      let ?s = "st\<lparr>trace := trace st @ [Exists ?c, ImageOpen ?c]\<rparr>"
      let ?s' = "st'\<lparr>trace := trace st' @ [Exists ?c, ImageOpen ?c]\<rparr>"
      have "\<forall>sz \<in> set szs. fs ?s (candidate e sz) = fs ?s' (candidate e sz)"
        using Cons.prems by simp
      from Cons.IH [OF this, of "acc @ [img]"] obtain r evs where
        "load_images e szs (acc @ [img]) ?s = (r, ?s\<lparr>trace := trace ?s @ evs\<rparr>)"
        "load_images e szs (acc @ [img]) ?s' = (r, ?s'\<lparr>trace := trace ?s' @ evs\<rparr>)" by blast
      then show ?thesis
        by (intro exI [of _ r] exI [of _ "Exists ?c # ImageOpen ?c # evs"])
           (simp add: load_images_Cons False False' dec Some)
    qed
  qed
qed

lemma load_images_ok:
  "load_images e szs acc st = (Inr imgs, st') \<Longrightarrow>
     st' = st\<lparr>trace := trace st @ concat (map (probe_events e (fs st)) szs)\<rparr> \<and>
     map Some imgs = map Some acc @
        map (\<lambda>sz. decoded e (fs st) (candidate e sz)) (filter (\<lambda>sz. fs st (candidate e sz) \<noteq> None) szs)"
proof (induction szs arbitrary: acc st)
  case Nil
  then show ?case by (simp add: return_def)
next
  case (Cons sz szs)
  let ?c = "candidate e sz"
  show ?case
  proof (cases "fs st ?c = None")
    case True
    with Cons.prems have
      "load_images e szs acc (st\<lparr>trace := trace st @ [Exists ?c]\<rparr>) = (Inr imgs, st')"
      by (simp add: load_images_Cons)
    from Cons.IH [OF this] True show ?thesis
      by (simp add: probe_events_def)
  next
    case False
    with Cons.prems obtain img where img: "decoded e (fs st) ?c = Some img"
      and "load_images e szs (acc @ [img])
             (st\<lparr>trace := trace st @ [Exists ?c, ImageOpen ?c]\<rparr>) = (Inr imgs, st')"
      by (auto simp: load_images_Cons split: option.splits)
    from Cons.IH [OF this(2)] False img show ?thesis
      by (simp add: probe_events_def)
  qed
qed

lemma Image_save_eq:
  "Image_save e img p sizes rest st =
     (case image_save_ico e img sizes rest of
        Saved b \<Rightarrow> (Inr (), \<lparr>fs = (fs st)(p \<mapsto> File b), trace = trace st @ [ImageSave p sizes img rest]\<rparr>)
      | SaveFailed b \<Rightarrow>
          (Inl ImageSaveError, \<lparr>fs = (fs st)(p \<mapsto> File b), trace = trace st @ [ImageSave p sizes img rest]\<rparr>))"
  by (simp add: Image_save_def bind_log write_file_def split: save_result.splits)

lemma create_ico_eq:
  "create_ico e a st =
     (case load_images e [16, 32, 48] [] (st\<lparr>trace := trace st @ [Print ''Generating favicon.ico...'']\<rparr>) of
        (Inl x, st1) \<Rightarrow> (Inl x, st1)
      | (Inr [], st1) \<Rightarrow> (Inr (), st1\<lparr>trace := trace st1 @
            [Print ''Warning: Could not create ICO file - missing required PNG sizes'']\<rparr>)
      | (Inr (img # rest), st1) \<Rightarrow>
          (case image_save_ico e img ico_sizes rest of
             Saved b \<Rightarrow> (Inr (), \<lparr>fs = (fs st1)(ico_path e \<mapsto> File b),
                 trace = trace st1 @ [ImageSave (ico_path e) ico_sizes img rest, Print ''Created favicon.ico'']\<rparr>)
           | SaveFailed b \<Rightarrow> (Inl ImageSaveError,
                 \<lparr>fs = (fs st1)(ico_path e \<mapsto> File b),
                  trace = trace st1 @ [ImageSave (ico_path e) ico_sizes img rest]\<rparr>)))"
  by (simp add: create_ico_def bind_print bind_def Image_save_eq print_eq joinpath_plain Let_def
       ico_path_def ico_sizes_def name_snoc
       split: prod.splits sum.splits list.splits save_result.splits)

lemma create_ico_three:
  assumes "fs st (png_path e ''favicon-16x16.png'') = Some (File p16)"
    and "fs st (png_path e ''favicon-32x32.png'') = Some (File p32)"
    and "fs st (png_path e ''favicon-48x48.png'') = Some (File p48)"
  shows "create_ico e a st =
     (case image_open e p16 of
        None \<Rightarrow> (Inl ImageOpenError, st\<lparr>trace := trace st @ take 3 (ico_events e undefined [])\<rparr>)
      | Some i16 \<Rightarrow>
     (case image_open e p32 of
        None \<Rightarrow> (Inl ImageOpenError, st\<lparr>trace := trace st @ take 5 (ico_events e undefined [])\<rparr>)
      | Some i32 \<Rightarrow>
     (case image_open e p48 of
        None \<Rightarrow> (Inl ImageOpenError, st\<lparr>trace := trace st @ take 7 (ico_events e undefined [])\<rparr>)
      | Some i48 \<Rightarrow>
     (case image_save_ico e i16 ico_sizes [i32, i48] of
        SaveFailed b \<Rightarrow> (Inl ImageSaveError, \<lparr>fs = (fs st)(ico_path e \<mapsto> File b),
                            trace = trace st @ take 8 (ico_events e i16 [i32, i48])\<rparr>)
      | Saved b \<Rightarrow> (Inr (), \<lparr>fs = (fs st)(ico_path e \<mapsto> File b),
                            trace = trace st @ ico_events e i16 [i32, i48]\<rparr>)))))"
  using assms
  by (simp add: create_ico_eq load_images_Cons candidate_eq decoded_def return_def ico_events_def
      ico_sizes_def split: option.splits save_result.splits)

lemma rasterize_not_file:
  assumes "\<And>src. fs st (SVG_PATH e) \<noteq> Some (File src)"
  shows "for_each (rasterize e) ((n, sz) # xs) st =
           (Inl Svg2pngError, st\<lparr>trace := trace st @ raster_events e (n, sz)\<rparr>)"
  using assms
  by (simp add: bind_def rasterize_def svg_to_png_eq split: option.splits node.splits)

lemma rasterize_success_iff:
  assumes "fs st (SVG_PATH e) = Some (File src)"
    and "\<forall>(n, sz) \<in> set xs. n \<noteq> ''favicon.svg''"
  shows "fst (for_each (rasterize e) xs st) = Inr () \<longleftrightarrow>
           (\<forall>(n, sz) \<in> set xs. svg2png e src sz sz \<noteq> None)"
proof
  assume "\<forall>(n, sz) \<in> set xs. svg2png e src sz sz \<noteq> None"
  from rasterize_all_ok [OF assms(1) this assms(2)]
  show "fst (for_each (rasterize e) xs st) = Inr ()" by simp
next
  assume ok: "fst (for_each (rasterize e) xs st) = Inr ()"
  show "\<forall>(n, sz) \<in> set xs. svg2png e src sz sz \<noteq> None"
  proof (rule ccontr)
    assume "\<not> (\<forall>(n, sz) \<in> set xs. svg2png e src sz sz \<noteq> None)"
    then have "\<exists>x \<in> set xs. svg2png e src (snd x) (snd x) = None"
      by (auto simp: case_prod_beta)
    then obtain ys x zs where xs: "xs = ys @ x # zs"
      and x: "svg2png e src (snd x) (snd x) = None"
      and ys: "\<forall>y \<in> set ys. svg2png e src (snd y) (snd y) \<noteq> None"
      by (auto dest!: split_list_first_prop)
    have "for_each (rasterize e) (ys @ (fst x, snd x) # zs) st =
           (Inl Svg2pngError, \<lparr>fs = written e src ys (fs st),
              trace = trace st @ concat (map (raster_events e) (ys @ [(fst x, snd x)]))\<rparr>)"
      using ys assms(2) x
      by (intro rasterize_first_failure [OF assms(1)]) (auto simp: xs)
    with ok show False by (simp add: xs)
  qed
qed

lemma table_distinct: "distinct (map fst PNG_SIZES)"
  by (simp add: PNG_SIZES_def)

lemma table_no_svg: "\<forall>(n, sz) \<in> set PNG_SIZES. n \<noteq> ''favicon.svg''"
  by (simp add: PNG_SIZES_def)

lemma table_ico_members:
  "(''favicon-16x16.png'', 16) \<in> set PNG_SIZES"
  "(''favicon-32x32.png'', 32) \<in> set PNG_SIZES"
  "(''favicon-48x48.png'', 48) \<in> set PNG_SIZES"
  by (simp_all add: PNG_SIZES_def)

lemma ico_not_output [simp]:
  "ico_path e \<noteq> SVG_PATH e" "SVG_PATH e \<noteq> ico_path e"
  "(n, sz) \<in> set PNG_SIZES \<Longrightarrow> ico_path e \<noteq> png_path e n"
  "(n, sz) \<in> set PNG_SIZES \<Longrightarrow> png_path e n \<noteq> ico_path e"
  by (auto simp: ico_path_def SVG_PATH_eq png_path_def dest: table_names_plain)

lemma written_table:
  assumes "(n, sz) \<in> set PNG_SIZES" and "svg2png e src sz sz = Some png"
  shows "written e src PNG_SIZES g (png_path e n) = Some (File png)"
  using table_distinct assms by (rule written_at)

lemma written_table_svg: "written e src PNG_SIZES g (SVG_PATH e) = g (SVG_PATH e)"
  using table_no_svg by (intro written_other) (auto simp: SVG_PATH_eq png_path_def)

lemma written_table_ico: "written e src PNG_SIZES g (ico_path e) = g (ico_path e)"
  by (intro written_other) (auto simp: ico_path_def png_path_def dest: table_names_plain)

lemma run_rasterized:
  assumes "importable e" and "mkdir_ok e f" and "f (SVG_PATH e) = Some (File src)"
    and "\<forall>(n, sz) \<in> set PNG_SIZES. svg2png e src sz sz \<noteq> None"
  shows "run e f =
           bind (create_ico e PNG_SIZES) (\<lambda>_.
           bind (print banner) (\<lambda>_.
           print (''Files created in: '' @ path_str (FAVICON_DIR e))))
           \<lparr>fs = written e src PNG_SIZES (made_dirs (FAVICON_DIR e) f),
            trace = prologue e @ concat (map (raster_events e) PNG_SIZES)\<rparr>"
proof -
  let ?st = "\<lparr>fs = made_dirs (FAVICON_DIR e) f,
               trace = [ImportLibs, Mkdir (FAVICON_DIR e)] @ [Exists (SVG_PATH e),
                 Print (''Using SVG source: '' @ path_str (SVG_PATH e)),
                 Print (''Output directory: '' @ path_str (FAVICON_DIR e)),
                 Print []]\<rparr>"
  have svg: "fs ?st (SVG_PATH e) = Some (File src)"
    using assms(3) by simp
  have loop: "for_each (rasterize e) PNG_SIZES ?st =
      (Inr (), \<lparr>fs = written e src PNG_SIZES (fs ?st),
                trace = trace ?st @ concat (map (raster_events e) PNG_SIZES)\<rparr>)"
    by (rule rasterize_all_ok [OF svg assms(4) table_no_svg])
  have "run e f = main e \<lparr>fs = made_dirs (FAVICON_DIR e) f, trace = [ImportLibs, Mkdir (FAVICON_DIR e)]\<rparr>"
    by (rule run_main [OF assms(1,2)])
  also have "\<dots> = bind (for_each (rasterize e) PNG_SIZES) (\<lambda>_.
       bind (create_ico e PNG_SIZES) (\<lambda>_.
       bind (print banner) (\<lambda>_.
       print (''Files created in: '' @ path_str (FAVICON_DIR e))))) ?st"
    using assms(3) by (subst main_present) simp_all
  also have "\<dots> = bind (create_ico e PNG_SIZES) (\<lambda>_.
           bind (print banner) (\<lambda>_.
           print (''Files created in: '' @ path_str (FAVICON_DIR e))))
           \<lparr>fs = written e src PNG_SIZES (made_dirs (FAVICON_DIR e) f),
            trace = prologue e @ concat (map (raster_events e) PNG_SIZES)\<rparr>"
    by (subst bind_def, subst loop) (simp add: prologue_def)
  finally show ?thesis .
qed

lemma run_ico:
  assumes "importable e" and "mkdir_ok e f" and "f (SVG_PATH e) = Some (File src)"
    and "\<forall>(n, sz) \<in> set PNG_SIZES. svg2png e src sz sz \<noteq> None"
    and "svg2png e src 16 16 = Some p16" and "svg2png e src 32 32 = Some p32"
    and "svg2png e src 48 48 = Some p48"
  shows "run e f =
     (case image_open e p16 of
        None \<Rightarrow> (Inl ImageOpenError, \<lparr>fs = written e src PNG_SIZES (made_dirs (FAVICON_DIR e) f),
            trace = prologue e @ concat (map (raster_events e) PNG_SIZES) @ take 3 (ico_events e undefined [])\<rparr>)
      | Some i16 \<Rightarrow>
     (case image_open e p32 of
        None \<Rightarrow> (Inl ImageOpenError, \<lparr>fs = written e src PNG_SIZES (made_dirs (FAVICON_DIR e) f),
            trace = prologue e @ concat (map (raster_events e) PNG_SIZES) @ take 5 (ico_events e undefined [])\<rparr>)
      | Some i32 \<Rightarrow>
     (case image_open e p48 of
        None \<Rightarrow> (Inl ImageOpenError, \<lparr>fs = written e src PNG_SIZES (made_dirs (FAVICON_DIR e) f),
            trace = prologue e @ concat (map (raster_events e) PNG_SIZES) @ take 7 (ico_events e undefined [])\<rparr>)
      | Some i48 \<Rightarrow>
     (case image_save_ico e i16 ico_sizes [i32, i48] of
        SaveFailed b \<Rightarrow> (Inl ImageSaveError,
           \<lparr>fs = (written e src PNG_SIZES (made_dirs (FAVICON_DIR e) f))(ico_path e \<mapsto> File b),
            trace = prologue e @ concat (map (raster_events e) PNG_SIZES) @ take 8 (ico_events e i16 [i32, i48])\<rparr>)
      | Saved b \<Rightarrow> (Inr (), \<lparr>fs = (written e src PNG_SIZES (made_dirs (FAVICON_DIR e) f))(ico_path e \<mapsto> File b),
            trace = prologue e @ concat (map (raster_events e) PNG_SIZES) @ ico_events e i16 [i32, i48]
                      @ epilogue e\<rparr>)))))"
proof -
  let ?st = "\<lparr>fs = written e src PNG_SIZES (made_dirs (FAVICON_DIR e) f),
              trace = prologue e @ concat (map (raster_events e) PNG_SIZES)\<rparr>"
  have files: "fs ?st (png_path e ''favicon-16x16.png'') = Some (File p16)"
    "fs ?st (png_path e ''favicon-32x32.png'') = Some (File p32)"
    "fs ?st (png_path e ''favicon-48x48.png'') = Some (File p48)"
    by (simp_all add: written_table [OF table_ico_members(1) assms(5)]
          written_table [OF table_ico_members(2) assms(6)]
          written_table [OF table_ico_members(3) assms(7)])
  show ?thesis
    unfolding run_rasterized [OF assms(1-4)]
    by (subst bind_def) (simp add: create_ico_three [OF files] bind_print print_eq epilogue_def
          split: option.splits save_result.splits)
qed

lemma run_success_D:
  assumes "fst (run e f) = Inr ()"
  shows "\<exists>src p16 p32 p48 i16 i32 i48 b.
           importable e \<and> mkdir_ok e f \<and> f (SVG_PATH e) = Some (File src) \<and>
           (\<forall>(n, sz) \<in> set PNG_SIZES. svg2png e src sz sz \<noteq> None) \<and>
           svg2png e src 16 16 = Some p16 \<and> svg2png e src 32 32 = Some p32 \<and>
           svg2png e src 48 48 = Some p48 \<and>
           image_open e p16 = Some i16 \<and> image_open e p32 = Some i32 \<and> image_open e p48 = Some i48 \<and>
           image_save_ico e i16 ico_sizes [i32, i48] = Saved b \<and>
           run e f = (Inr (), \<lparr>fs = (written e src PNG_SIZES (made_dirs (FAVICON_DIR e) f))(ico_path e \<mapsto> File b),
              trace = prologue e @ concat (map (raster_events e) PNG_SIZES) @ ico_events e i16 [i32, i48]
                        @ epilogue e\<rparr>)"
proof -
  have imp: "importable e"
    using assms by (rule contrapos_pp) (simp add: run_not_importable)
  have mk: "mkdir_ok e f"
    using assms imp by (rule_tac ccontr) (simp add: run_mkdir_fails)
  let ?st = "\<lparr>fs = made_dirs (FAVICON_DIR e) f, trace = [ImportLibs, Mkdir (FAVICON_DIR e)]\<rparr>"
  have run: "run e f = main e ?st" by (rule run_main [OF imp mk])
  have ex: "f (SVG_PATH e) \<noteq> None"
    using assms unfolding run by (rule contrapos_pp) (simp add: main_missing)
  let ?st1 = "?st\<lparr>trace := trace ?st @ [Exists (SVG_PATH e),
              Print (''Using SVG source: '' @ path_str (SVG_PATH e)),
              Print (''Output directory: '' @ path_str (FAVICON_DIR e)),
              Print []]\<rparr>"
  have main: "main e ?st = bind (for_each (rasterize e) PNG_SIZES) (\<lambda>_.
       bind (create_ico e PNG_SIZES) (\<lambda>_.
       bind (print banner) (\<lambda>_.
       print (''Files created in: '' @ path_str (FAVICON_DIR e))))) ?st1"
    using ex by (subst main_present) simp_all
  have loop_ok: "fst (for_each (rasterize e) PNG_SIZES ?st1) = Inr ()"
    using assms unfolding run main
    by (cases "for_each (rasterize e) PNG_SIZES ?st1"; cases "fst (for_each (rasterize e) PNG_SIZES ?st1)")
       (auto simp: bind_def)
  obtain src where src: "f (SVG_PATH e) = Some (File src)"
  proof (cases "f (SVG_PATH e)")
    case None
    with ex show ?thesis by simp
  next
    case (Some nd)
    show ?thesis
    proof (cases nd)
      case (File src)
      with Some that show ?thesis by simp
    next
      case Dir
      with Some have nf: "\<And>src. fs ?st1 (SVG_PATH e) \<noteq> Some (File src)" by simp
      have "fst (for_each (rasterize e) PNG_SIZES ?st1) = Inl Svg2pngError"
        unfolding PNG_SIZES_def by (subst rasterize_not_file [OF nf]) simp
      with loop_ok show ?thesis by simp
    qed
  qed
  then have svg1: "fs ?st1 (SVG_PATH e) = Some (File src)" by simp
  have all: "\<forall>(n, sz) \<in> set PNG_SIZES. svg2png e src sz sz \<noteq> None"
    using loop_ok rasterize_success_iff [OF svg1 table_no_svg] by simp
  from bspec [OF all table_ico_members(1)] bspec [OF all table_ico_members(2)]
    bspec [OF all table_ico_members(3)]
  obtain p16 p32 p48 where p: "svg2png e src 16 16 = Some p16"
    "svg2png e src 32 32 = Some p32" "svg2png e src 48 48 = Some p48"
    by auto
  note eq = run_ico [OF imp mk src all p]
  have res: "fst (run e f) = Inr ()" by (rule assms)
  obtain i16 where i16: "image_open e p16 = Some i16"
    using res unfolding eq by (cases "image_open e p16") simp_all
  obtain i32 where i32: "image_open e p32 = Some i32"
    using res unfolding eq i16 by (cases "image_open e p32") simp_all
  obtain i48 where i48: "image_open e p48 = Some i48"
    using res unfolding eq i16 i32 by (cases "image_open e p48") simp_all
  obtain b where b: "image_save_ico e i16 ico_sizes [i32, i48] = Saved b"
    using res unfolding eq i16 i32 i48
    by (cases "image_save_ico e i16 ico_sizes [i32, i48]") simp_all
  have "run e f = (Inr (), \<lparr>fs = (written e src PNG_SIZES (made_dirs (FAVICON_DIR e) f))(ico_path e \<mapsto> File b),
              trace = prologue e @ concat (map (raster_events e) PNG_SIZES) @ ico_events e i16 [i32, i48]
                        @ epilogue e\<rparr>)"
    by (simp add: eq i16 i32 i48 b)
  with imp mk src all p i16 i32 i48 b show ?thesis by blast
qed

lemma example_paths:
  "FAVICON_DIR example_env =
     [''repo'', ''packages'', ''react-ui'', ''packages'', ''react-ui'', ''public'', ''favicons'']"
  "SVG_PATH example_env =
     [''repo'', ''packages'', ''react-ui'', ''packages'', ''react-ui'', ''public'', ''favicons'',
      ''favicon.svg'']"
  "FAVICON_DIR no_libs_env = FAVICON_DIR example_env"
  "SVG_PATH no_libs_env = SVG_PATH example_env"
  by (simp_all add: SVG_PATH_eq FAVICON_DIR_eq PROJECT_ROOT_def SCRIPT_DIR_def parent_def
      example_env_def no_libs_env_def)

lemma example_mkdir_ok: "mkdir_ok example_env example_fs" "mkdir_ok example_env empty_fs"
  by (simp_all add: mkdir_ok_def example_paths example_fs_def empty_fs_def is_file_def)

lemma example_importable: "importable example_env"
  by (simp add: importable_def example_env_def)

lemma example_run_ok: "fst (run example_env example_fs) = Inr ()"
  by code_simp

text \<open>
  C2. With the script at its place in the repository,
  \<^verbatim>\<open><repo>/packages/react-ui/scripts/generate-favicons.py\<close>, the project root the script
  computes is \<^verbatim>\<open><repo>/packages/react-ui\<close>, so the SVG path it resolves is
  \<^verbatim>\<open><repo>/packages/react-ui/packages/react-ui/public/favicons/favicon.svg\<close> and not
  \<^verbatim>\<open><repo>/packages/react-ui/public/favicons/favicon.svg\<close>. The output directory is the
  directory of that SVG path.
\<close>

theorem svg_path_in_repository:
  "PROJECT_ROOT (e\<lparr>script_file := repo @ [''packages'', ''react-ui'', ''scripts'', ''generate-favicons.py'']\<rparr>)
     = repo @ [''packages'', ''react-ui'']
   \<and> SVG_PATH (e\<lparr>script_file := repo @ [''packages'', ''react-ui'', ''scripts'', ''generate-favicons.py'']\<rparr>)
     = repo @ [''packages'', ''react-ui'', ''packages'', ''react-ui'', ''public'', ''favicons'', ''favicon.svg'']
   \<and> SVG_PATH (e\<lparr>script_file := repo @ [''packages'', ''react-ui'', ''scripts'', ''generate-favicons.py'']\<rparr>)
     \<noteq> repo @ [''packages'', ''react-ui'', ''public'', ''favicons'', ''favicon.svg'']
   \<and> FAVICON_DIR (e\<lparr>script_file := repo @ [''packages'', ''react-ui'', ''scripts'', ''generate-favicons.py'']\<rparr>)
     = parent (SVG_PATH (e\<lparr>script_file := repo @ [''packages'', ''react-ui'', ''scripts'', ''generate-favicons.py'']\<rparr>))"
proof -
  have "butlast (butlast (repo @ [''packages'', ''react-ui'', ''scripts'', ''generate-favicons.py'']))
          = repo @ [''packages'', ''react-ui'']"
    by (simp add: butlast_append)
  then show ?thesis
    by (simp add: SVG_PATH_eq FAVICON_DIR_eq PROJECT_ROOT_def SCRIPT_DIR_def parent_def butlast_append)
qed



lemma run_svg_missing:
  assumes "importable e" and "mkdir_ok e f" and "f (SVG_PATH e) = None"
  shows "run e f = (Inl (SystemExit 1),
           \<lparr>fs = made_dirs (FAVICON_DIR e) f,
            trace = [ImportLibs, Mkdir (FAVICON_DIR e), Exists (SVG_PATH e),
                     Print (''Error: SVG source not found at '' @ path_str (SVG_PATH e))]\<rparr>)"
  using assms(3) by (simp add: run_main [OF assms(1,2)] main_missing)

lemma run_present:
  assumes "importable e" and "mkdir_ok e f" and "f (SVG_PATH e) \<noteq> None"
  shows "run e f =
       bind (for_each (rasterize e) PNG_SIZES) (\<lambda>_.
       bind (create_ico e PNG_SIZES) (\<lambda>_.
       bind (print banner) (\<lambda>_.
       print (''Files created in: '' @ path_str (FAVICON_DIR e)))))
       \<lparr>fs = made_dirs (FAVICON_DIR e) f, trace = prologue e\<rparr>"
  using assms(3) by (simp add: run_main [OF assms(1,2)] main_present prologue_def)

lemma run_svg_not_file:
  assumes "importable e" and "mkdir_ok e f" and "f (SVG_PATH e) = Some Dir"
  shows "run e f = (Inl Svg2pngError,
           \<lparr>fs = made_dirs (FAVICON_DIR e) f,
            trace = prologue e @ raster_events e (''favicon-16x16.png'', 16)\<rparr>)"
proof -
  let ?st = "\<lparr>fs = made_dirs (FAVICON_DIR e) f, trace = prologue e\<rparr>"
  have nf: "\<And>src. fs ?st (SVG_PATH e) \<noteq> Some (File src)"
    using assms(3) by simp
  have "for_each (rasterize e) PNG_SIZES ?st =
          (Inl Svg2pngError, ?st\<lparr>trace := trace ?st @ raster_events e (''favicon-16x16.png'', 16)\<rparr>)"
    unfolding PNG_SIZES_def by (rule rasterize_not_file [OF nf])
  then show ?thesis
    using assms(3) by (simp add: run_present [OF assms(1,2)] bind_def)
qed

lemma run_raster_failure:
  assumes "importable e" and "mkdir_ok e f" and "f (SVG_PATH e) = Some (File src)"
    and "PNG_SIZES = ys @ (m, s) # zs"
    and "\<forall>(n, sz) \<in> set ys. svg2png e src sz sz \<noteq> None"
    and "svg2png e src s s = None"
  shows "run e f = (Inl Svg2pngError,
           \<lparr>fs = written e src ys (made_dirs (FAVICON_DIR e) f),
            trace = prologue e @ concat (map (raster_events e) (ys @ [(m, s)]))\<rparr>)"
proof -
  let ?st = "\<lparr>fs = made_dirs (FAVICON_DIR e) f, trace = prologue e\<rparr>"
  have svg: "fs ?st (SVG_PATH e) = Some (File src)"
    using assms(3) by simp
  have "\<forall>(n, sz) \<in> set ys. n \<noteq> ''favicon.svg''"
    using table_no_svg by (auto simp: assms(4))
  from rasterize_first_failure [OF svg assms(5) this assms(6)]
  have "for_each (rasterize e) PNG_SIZES ?st =
          (Inl Svg2pngError, \<lparr>fs = written e src ys (fs ?st),
             trace = trace ?st @ concat (map (raster_events e) (ys @ [(m, s)]))\<rparr>)"
    unfolding assms(4) .
  then show ?thesis
    using assms(3) by (simp add: run_present [OF assms(1,2)] bind_def)
qed

lemma first_failure_split:
  assumes "\<not> (\<forall>(n, sz) \<in> set xs. svg2png e src sz sz \<noteq> None)"
  shows "\<exists>ys m s zs. xs = ys @ (m, s) # zs \<and> (\<forall>(n, sz) \<in> set ys. svg2png e src sz sz \<noteq> None)
            \<and> svg2png e src s s = None"
proof -
  from assms have "\<exists>x \<in> set xs. svg2png e src (snd x) (snd x) = None"
    by (auto simp: case_prod_beta)
  then obtain ys x zs where "xs = ys @ x # zs" "svg2png e src (snd x) (snd x) = None"
    "\<forall>y \<in> set ys. svg2png e src (snd y) (snd y) \<noteq> None"
    by (auto dest!: split_list_first_prop)
  then show ?thesis
    by (intro exI [of _ ys] exI [of _ "fst x"] exI [of _ "snd x"] exI [of _ zs])
       (auto simp: case_prod_beta)
qed

lemma run_trace_start:
  assumes "importable e"
  shows "take 2 (trace (snd (run e f))) = [ImportLibs, Mkdir (FAVICON_DIR e)]"
proof (cases "mkdir_ok e f")
  case False
  with assms show ?thesis by (simp add: run_mkdir_fails)
next
  case mk: True
  show ?thesis
  proof (cases "f (SVG_PATH e)")
    case None
    then show ?thesis by (simp add: run_svg_missing [OF assms mk])
  next
    case (Some nd)
    show ?thesis
    proof (cases nd)
      case Dir
      with Some show ?thesis
        by (simp add: run_svg_not_file [OF assms mk] prologue_def)
    next
      case (File src)
      with Some have src: "f (SVG_PATH e) = Some (File src)" by simp
      show ?thesis
      proof (cases "\<forall>(n, sz) \<in> set PNG_SIZES. svg2png e src sz sz \<noteq> None")
        case False
        from first_failure_split [OF this] obtain ys m s zs where
          "PNG_SIZES = ys @ (m, s) # zs" "\<forall>(n, sz) \<in> set ys. svg2png e src sz sz \<noteq> None"
          "svg2png e src s s = None" by blast
        from run_raster_failure [OF assms mk src this] show ?thesis
          by (simp add: prologue_def)
      next
        case all: True
        from bspec [OF all table_ico_members(1)] bspec [OF all table_ico_members(2)]
          bspec [OF all table_ico_members(3)]
        obtain p16 p32 p48 where "svg2png e src 16 16 = Some p16"
          "svg2png e src 32 32 = Some p32" "svg2png e src 48 48 = Some p48"
          by auto
        note eq = run_ico [OF assms mk src all this]
        show ?thesis
          unfolding eq by (simp add: prologue_def split: option.splits save_result.splits)
      qed
    qed
  qed
qed



text \<open>
  C3, as written, fails: the module creates the output directory when it is loaded,
  before \<^verbatim>\<open>main\<close> checks that the SVG exists. In a run on an empty file system the SVG
  check fails, and the directory has been created all the same.
\<close>

theorem run_order_counterexample:
  "empty_fs (SVG_PATH example_env) = None
   \<and> empty_fs (FAVICON_DIR example_env) = None
   \<and> fst (run example_env empty_fs) = Inl (SystemExit 1)
   \<and> fs (snd (run example_env empty_fs)) (FAVICON_DIR example_env) = Some Dir
   \<and> trace (snd (run example_env empty_fs)) =
        [ImportLibs, Mkdir (FAVICON_DIR example_env), Exists (SVG_PATH example_env),
         Print ''Error: SVG source not found at /repo/packages/react-ui/packages/react-ui/public/favicons/favicon.svg'']"
proof -
  have none: "empty_fs (SVG_PATH example_env) = None" by (simp add: empty_fs_def)
  have imp: "importable example_env" by (rule example_importable)
  from run_svg_missing [OF imp example_mkdir_ok(2) none] show ?thesis
    by (simp add: example_paths path_str_def made_dirs_def empty_fs_def)
qed

text \<open>
  C3, amended. The steps of a run occur in this order: the import of the libraries, the
  creation of the output directory, the check that the SVG exists, the rasterization of
  every table entry in the order of the table, the ICO assembly, the completion report.
  When the libraries can be imported, the first two events of every run are the import
  and the mkdir, whatever happens later; a run that ends normally has exactly the trace
  below.
\<close>

theorem run_order:
  "(importable e \<longrightarrow> take 2 (trace (snd (run e f))) = [ImportLibs, Mkdir (FAVICON_DIR e)])
   \<and> (fst (run e f) = Inr () \<longrightarrow>
        (\<exists>img rest. trace (snd (run e f)) =
           [ImportLibs, Mkdir (FAVICON_DIR e), Exists (SVG_PATH e),
            Print (''Using SVG source: '' @ path_str (SVG_PATH e)),
            Print (''Output directory: '' @ path_str (FAVICON_DIR e)),
            Print []]
           @ concat (map (raster_events e) PNG_SIZES)
           @ ico_events e img rest
           @ [Print banner, Print (''Files created in: '' @ path_str (FAVICON_DIR e))]))"
proof (intro conjI impI)
  assume "importable e"
  then show "take 2 (trace (snd (run e f))) = [ImportLibs, Mkdir (FAVICON_DIR e)]"
    by (rule run_trace_start)
next
  assume "fst (run e f) = Inr ()"
  from run_success_D [OF this] obtain src i16 i32 i48 b where
    "run e f = (Inr (), \<lparr>fs = (written e src PNG_SIZES (made_dirs (FAVICON_DIR e) f))(ico_path e \<mapsto> File b),
              trace = prologue e @ concat (map (raster_events e) PNG_SIZES) @ ico_events e i16 [i32, i48]
                        @ epilogue e\<rparr>)" by blast
  then show "\<exists>img rest. trace (snd (run e f)) =
           [ImportLibs, Mkdir (FAVICON_DIR e), Exists (SVG_PATH e),
            Print (''Using SVG source: '' @ path_str (SVG_PATH e)),
            Print (''Output directory: '' @ path_str (FAVICON_DIR e)),
            Print []]
           @ concat (map (raster_events e) PNG_SIZES)
           @ ico_events e img rest
           @ [Print banner, Print (''Files created in: '' @ path_str (FAVICON_DIR e))]"
    by (intro exI [of _ i16] exI [of _ "[i32, i48]"]) (simp add: prologue_def epilogue_def)
qed

theorem run_order_witness:
  "importable example_env
   \<and> take 2 (trace (snd (run example_env example_fs))) = [ImportLibs, Mkdir (FAVICON_DIR example_env)]
   \<and> fst (run example_env example_fs) = Inr ()
   \<and> (\<exists>img rest. trace (snd (run example_env example_fs)) =
           [ImportLibs, Mkdir (FAVICON_DIR example_env), Exists (SVG_PATH example_env),
            Print (''Using SVG source: '' @ path_str (SVG_PATH example_env)),
            Print (''Output directory: '' @ path_str (FAVICON_DIR example_env)),
            Print []]
           @ concat (map (raster_events example_env) PNG_SIZES)
           @ ico_events example_env img rest
           @ [Print banner, Print (''Files created in: '' @ path_str (FAVICON_DIR example_env))])"
proof -
  have imp: "importable example_env" by (rule example_importable)
  from run_order [of example_env example_fs] imp example_run_ok show ?thesis
    by blast
qed





lemma load_images_events:
  "\<exists>evs. snd (load_images e szs acc st) = st\<lparr>trace := trace st @ evs\<rparr> \<and> (\<forall>ev \<in> set evs. \<not> is_save ev)"
proof (induction szs arbitrary: acc st)
  case Nil
  show ?case by (simp add: return_def) (rule exI [of _ "[]"], simp)
next
  case (Cons sz szs)
  let ?c = "candidate e sz"
  show ?case
  proof (cases "fs st ?c = None")
    case True
    let ?s = "st\<lparr>trace := trace st @ [Exists ?c]\<rparr>"
    from Cons.IH [of acc ?s] obtain evs where
      "snd (load_images e szs acc ?s) = ?s\<lparr>trace := trace ?s @ evs\<rparr>" "\<forall>ev \<in> set evs. \<not> is_save ev"
      by blast
    then show ?thesis
      by (intro exI [of _ "Exists ?c # evs"]) (simp add: load_images_Cons True)
  next
    case False
    show ?thesis
    proof (cases "decoded e (fs st) ?c")
      case None
      then show ?thesis
        by (intro exI [of _ "[Exists ?c, ImageOpen ?c]"]) (simp add: load_images_Cons False)
    next
      case (Some img)
      let ?s = "st\<lparr>trace := trace st @ [Exists ?c, ImageOpen ?c]\<rparr>"
      from Cons.IH [of "acc @ [img]" ?s] obtain evs where
        "snd (load_images e szs (acc @ [img]) ?s) = ?s\<lparr>trace := trace ?s @ evs\<rparr>"
        "\<forall>ev \<in> set evs. \<not> is_save ev"
        by blast
      then show ?thesis
        by (intro exI [of _ "Exists ?c # ImageOpen ?c # evs"]) (simp add: load_images_Cons False Some)
    qed
  qed
qed

lemma probe_events_no_save: "ev \<in> set (probe_events e f sz) \<Longrightarrow> \<not> is_save ev"
  by (auto simp: probe_events_def split: if_splits)

lemma example_ico_paths:
  "candidate example_env 16 =
     [''repo'', ''packages'', ''react-ui'', ''packages'', ''react-ui'', ''public'', ''favicons'', ''favicon-16x16.png'']"
  "candidate example_env 32 =
     [''repo'', ''packages'', ''react-ui'', ''packages'', ''react-ui'', ''public'', ''favicons'', ''favicon-32x32.png'']"
  "candidate example_env 48 =
     [''repo'', ''packages'', ''react-ui'', ''packages'', ''react-ui'', ''public'', ''favicons'', ''favicon-48x48.png'']"
  "ico_path example_env =
     [''repo'', ''packages'', ''react-ui'', ''packages'', ''react-ui'', ''public'', ''favicons'', ''favicon.ico'']"
  by (simp_all add: candidate_eq png_path_def ico_path_def example_paths)

lemma example_ico_files:
  "ico_fs (candidate example_env 16) = None"
  "ico_fs (candidate example_env 32) = Some (File [4, 5])"
  "ico_fs (candidate example_env 48) = Some (File [6])"
  "example_fs (candidate example_env 16) = None"
  "example_fs (candidate example_env 32) = None"
  "example_fs (candidate example_env 48) = None"
  by (simp_all add: example_ico_paths ico_fs_def example_fs_def empty_fs_def)

lemma example_decoded:
  "decoded example_env ico_fs (candidate example_env 16) = None"
  "decoded example_env ico_fs (candidate example_env 32) = Some (Image [4, 5])"
  "decoded example_env ico_fs (candidate example_env 48) = Some (Image [6])"
  by (simp_all add: decoded_def example_ico_files) (simp_all add: example_env_def)

lemma example_create_ico:
  "create_ico example_env a \<lparr>fs = ico_fs, trace = []\<rparr> =
     (Inr (), \<lparr>fs = ico_fs(ico_path example_env \<mapsto> File [4, 5, 6]),
        trace = [Print ''Generating favicon.ico...'',
                 Exists (candidate example_env 16),
                 Exists (candidate example_env 32), ImageOpen (candidate example_env 32),
                 Exists (candidate example_env 48), ImageOpen (candidate example_env 48),
                 ImageSave (ico_path example_env) [(16, 16), (32, 32), (48, 48)] (Image [4, 5]) [Image [6]],
                 Print ''Created favicon.ico'']\<rparr>)"
proof -
  have save: "image_save_ico example_env (Image [4, 5]) ico_sizes [Image [6]] = Saved [4, 5, 6]"
    by (simp add: example_env_def)
  show ?thesis
    by (simp add: create_ico_eq load_images_Cons example_ico_files example_decoded return_def save)
       (simp add: ico_sizes_def)
qed

text \<open>
  C9. \<^verbatim>\<open>create_ico\<close> never reads its argument: it is the same action for any two
  arguments. Started with any two arguments in two states whose file systems agree on the
  three candidate paths \<^verbatim>\<open>favicon-16x16.png\<close>, \<^verbatim>\<open>favicon-32x32.png\<close> and
  \<^verbatim>\<open>favicon-48x48.png\<close>, it ends with the same result, adds the same events to the trace
  (prints, probes, loads, the save with its arguments), and makes the same change to the
  file system: none, or the same bytes written to \<^verbatim>\<open>favicon.ico\<close>.
\<close>

theorem create_ico_ignores_argument:
  assumes "fs st (png_path e ''favicon-16x16.png'') = fs st' (png_path e ''favicon-16x16.png'')"
    and "fs st (png_path e ''favicon-32x32.png'') = fs st' (png_path e ''favicon-32x32.png'')"
    and "fs st (png_path e ''favicon-48x48.png'') = fs st' (png_path e ''favicon-48x48.png'')"
  shows "create_ico e a = create_ico e b
     \<and> (\<exists>r evs upd.
          create_ico e a st =
            (r, \<lparr>fs = (case upd of None \<Rightarrow> fs st | Some bytes \<Rightarrow> (fs st)(ico_path e \<mapsto> File bytes)),
                 trace = trace st @ evs\<rparr>)
        \<and> create_ico e b st' =
            (r, \<lparr>fs = (case upd of None \<Rightarrow> fs st' | Some bytes \<Rightarrow> (fs st')(ico_path e \<mapsto> File bytes)),
                 trace = trace st' @ evs\<rparr>))"
proof
  show "create_ico e a = create_ico e b"
    by (simp add: create_ico_def)
next
  let ?g = "Print ''Generating favicon.ico...''"
  let ?s = "st\<lparr>trace := trace st @ [?g]\<rparr>"
  let ?s' = "st'\<lparr>trace := trace st' @ [?g]\<rparr>"
  have "\<forall>sz \<in> set [16, 32, 48]. fs ?s (candidate e sz) = fs ?s' (candidate e sz)"
    using assms by (simp add: candidate_eq)
  from load_images_agree [OF this, of "[]"] obtain r evs where
    L: "load_images e [16, 32, 48] [] ?s = (r, ?s\<lparr>trace := trace ?s @ evs\<rparr>)"
    and L': "load_images e [16, 32, 48] [] ?s' = (r, ?s'\<lparr>trace := trace ?s' @ evs\<rparr>)"
    by blast
  show "\<exists>r evs upd.
          create_ico e a st =
            (r, \<lparr>fs = (case upd of None \<Rightarrow> fs st | Some bytes \<Rightarrow> (fs st)(ico_path e \<mapsto> File bytes)),
                 trace = trace st @ evs\<rparr>)
        \<and> create_ico e b st' =
            (r, \<lparr>fs = (case upd of None \<Rightarrow> fs st' | Some bytes \<Rightarrow> (fs st')(ico_path e \<mapsto> File bytes)),
                 trace = trace st' @ evs\<rparr>)"
  proof (cases r)
    case (Inl x)
    show ?thesis
      by (intro exI [of _ "Inl x"] exI [of _ "?g # evs"] exI [of _ None])
         (simp add: create_ico_eq L L' Inl)
  next
    case (Inr imgs)
    show ?thesis
    proof (cases imgs)
      case Nil
      show ?thesis
        by (intro exI [of _ "Inr ()"] exI [of _ None]
             exI [of _ "?g # evs @ [Print ''Warning: Could not create ICO file - missing required PNG sizes'']"])
           (simp add: create_ico_eq L L' Inr Nil)
    next
      case (Cons img rest)
      show ?thesis
      proof (cases "image_save_ico e img ico_sizes rest")
        case (SaveFailed bytes)
        show ?thesis
          by (intro exI [of _ "Inl ImageSaveError"] exI [of _ "Some bytes"]
               exI [of _ "?g # evs @ [ImageSave (ico_path e) ico_sizes img rest]"])
             (simp add: create_ico_eq L L' Inr Cons SaveFailed)
      next
        case (Saved bytes)
        show ?thesis
          by (intro exI [of _ "Inr ()"] exI [of _ "Some bytes"]
               exI [of _ "?g # evs @ [ImageSave (ico_path e) ico_sizes img rest, Print ''Created favicon.ico'']"])
             (simp add: create_ico_eq L L' Inr Cons Saved)
      qed
    qed
  qed
qed

theorem create_ico_ignores_argument_witness:
  "fs \<lparr>fs = ico_fs, trace = []\<rparr> (png_path example_env ''favicon-16x16.png'')
     = fs \<lparr>fs = ico_fs(SVG_PATH example_env := None), trace = [ImportLibs]\<rparr> (png_path example_env ''favicon-16x16.png'')
   \<and> fs \<lparr>fs = ico_fs, trace = []\<rparr> (png_path example_env ''favicon-32x32.png'')
     = fs \<lparr>fs = ico_fs(SVG_PATH example_env := None), trace = [ImportLibs]\<rparr> (png_path example_env ''favicon-32x32.png'')
   \<and> fs \<lparr>fs = ico_fs, trace = []\<rparr> (png_path example_env ''favicon-48x48.png'')
     = fs \<lparr>fs = ico_fs(SVG_PATH example_env := None), trace = [ImportLibs]\<rparr> (png_path example_env ''favicon-48x48.png'')
   \<and> create_ico example_env PNG_SIZES = create_ico example_env []
   \<and> (\<exists>r evs upd.
          create_ico example_env PNG_SIZES \<lparr>fs = ico_fs, trace = []\<rparr> =
            (r, \<lparr>fs = (case upd of None \<Rightarrow> ico_fs | Some bytes \<Rightarrow> ico_fs(ico_path example_env \<mapsto> File bytes)),
                 trace = [] @ evs\<rparr>)
        \<and> create_ico example_env [] \<lparr>fs = ico_fs(SVG_PATH example_env := None), trace = [ImportLibs]\<rparr> =
            (r, \<lparr>fs = (case upd of None \<Rightarrow> ico_fs(SVG_PATH example_env := None)
                        | Some bytes \<Rightarrow> (ico_fs(SVG_PATH example_env := None))(ico_path example_env \<mapsto> File bytes)),
                 trace = [ImportLibs] @ evs\<rparr>))"
proof -
  let ?A = "\<lparr>fs = ico_fs, trace = []\<rparr>"
  let ?B = "\<lparr>fs = ico_fs(SVG_PATH example_env := None), trace = [ImportLibs]\<rparr>"
  have h: "fs ?A (png_path example_env ''favicon-16x16.png'') = fs ?B (png_path example_env ''favicon-16x16.png'')"
    "fs ?A (png_path example_env ''favicon-32x32.png'') = fs ?B (png_path example_env ''favicon-32x32.png'')"
    "fs ?A (png_path example_env ''favicon-48x48.png'') = fs ?B (png_path example_env ''favicon-48x48.png'')"
    by simp_all
  note t = create_ico_ignores_argument [OF h, where a = PNG_SIZES and b = "[]"]
  from t [THEN conjunct1] t [THEN conjunct2] h show ?thesis
    by (simp cong: option.case_cong)
qed






text \<open>
  C10. Whenever the ICO assembly calls the encoder (an \<^verbatim>\<open>ImageSave\<close> event is among the
  events the step adds), the events of the step are: the print, the probe of the 16
  pixel candidate (and its load when it exists), then of the 32 pixel one, then of the 48
  pixel one, then the save. The save goes to \<^verbatim>\<open>favicon.ico\<close> with the size hints
  [(16,16),(32,32),(48,48)], however many images were loaded. The images passed to the
  encoder are the decodings of the existing candidates in ascending order of size, so the
  base image is decoded from the smallest candidate that exists.
\<close>

theorem ico_probe_order:
  assumes "create_ico e a st = (r, st')" and "trace st' = trace st @ evs"
    and "ImageSave p sizes img rest \<in> set evs"
  shows "p = ico_path e \<and> sizes = [(16, 16), (32, 32), (48, 48)]
     \<and> evs = Print ''Generating favicon.ico...''
           # probe_events e (fs st) 16 @ probe_events e (fs st) 32 @ probe_events e (fs st) 48
           @ ImageSave (ico_path e) [(16, 16), (32, 32), (48, 48)] img rest
           # (if r = Inr () then [Print ''Created favicon.ico''] else [])
     \<and> map Some (img # rest) =
         map (\<lambda>sz. decoded e (fs st) (candidate e sz))
           (filter (\<lambda>sz. fs st (candidate e sz) \<noteq> None) [16, 32, 48])
     \<and> (\<exists>sz \<in> set [16, 32, 48].
          fs st (candidate e sz) \<noteq> None \<and> decoded e (fs st) (candidate e sz) = Some img
          \<and> (\<forall>sz' \<in> set [16, 32, 48]. sz' < sz \<longrightarrow> fs st (candidate e sz') = None))"
proof -
  let ?g = "Print ''Generating favicon.ico...''"
  let ?s = "st\<lparr>trace := trace st @ [?g]\<rparr>"
  obtain r1 s1 where L: "load_images e [16, 32, 48] [] ?s = (r1, s1)"
    by force
  from load_images_events [of e "[16, 32, 48]" "[]" ?s] L obtain evs1 where
    s1: "s1 = ?s\<lparr>trace := trace ?s @ evs1\<rparr>" and ns: "\<forall>ev \<in> set evs1. \<not> is_save ev"
    by auto
  have C: "create_ico e a st = (r, st')" by (rule assms(1))
  show ?thesis
  proof (cases r1)
    case (Inl x)
    with C L s1 assms(2) have "evs = ?g # evs1"
      by (auto simp: create_ico_eq)
    with ns assms(3) show ?thesis by auto
  next
    case (Inr imgs)
    show ?thesis
    proof (cases imgs)
      case Nil
      with C L s1 assms(2) Inr have
        "evs = ?g # evs1 @ [Print ''Warning: Could not create ICO file - missing required PNG sizes'']"
        by (auto simp: create_ico_eq)
      with ns assms(3) show ?thesis by auto
    next
      case (Cons i rs)
      from L have L2: "load_images e [16, 32, 48] [] ?s = (Inr (i # rs), s1)"
        by (simp add: Inr Cons)
      from load_images_ok [OF L2] have
        s1': "s1 = ?s\<lparr>trace := trace ?s @ concat (map (probe_events e (fs st)) [16, 32, 48])\<rparr>"
        and imgs: "map Some (i # rs) =
           map (\<lambda>sz. decoded e (fs st) (candidate e sz))
             (filter (\<lambda>sz. fs st (candidate e sz) \<noteq> None) [16, 32, 48])"
        by simp_all
      let ?pr = "probe_events e (fs st) 16 @ probe_events e (fs st) 32 @ probe_events e (fs st) 48"
      have nopr: "ImageSave p sizes img rest \<notin> set ?pr"
        using probe_events_no_save [of "ImageSave p sizes img rest" e "fs st"] by auto
      have evs: "evs = ?g # ?pr @ ImageSave (ico_path e) ico_sizes i rs
                   # (if r = Inr () then [Print ''Created favicon.ico''] else [])"
        using C assms(2) by (auto simp: create_ico_eq L2 s1' split: save_result.splits)
      with assms(3) nopr have same: "p = ico_path e" "sizes = ico_sizes" "img = i" "rest = rs"
        by (auto split: if_splits)
      have small: "\<exists>sz \<in> set [16, 32, 48].
          fs st (candidate e sz) \<noteq> None \<and> decoded e (fs st) (candidate e sz) = Some i
          \<and> (\<forall>sz' \<in> set [16, 32, 48]. sz' < sz \<longrightarrow> fs st (candidate e sz') = None)"
        using imgs by (auto split: if_splits)
      from evs imgs small show ?thesis
        unfolding same by (simp add: ico_sizes_def)
    qed
  qed
qed

theorem ico_probe_order_witness:
  "create_ico example_env [] \<lparr>fs = ico_fs, trace = []\<rparr> =
     (Inr (), \<lparr>fs = ico_fs(ico_path example_env \<mapsto> File [4, 5, 6]),
        trace = [Print ''Generating favicon.ico...'',
                 Exists (candidate example_env 16),
                 Exists (candidate example_env 32), ImageOpen (candidate example_env 32),
                 Exists (candidate example_env 48), ImageOpen (candidate example_env 48),
                 ImageSave (ico_path example_env) [(16, 16), (32, 32), (48, 48)] (Image [4, 5]) [Image [6]],
                 Print ''Created favicon.ico'']\<rparr>)
   \<and> ico_fs (candidate example_env 16) = None
   \<and> map Some [Image [4, 5], Image [6]] =
         map (\<lambda>sz. decoded example_env ico_fs (candidate example_env sz))
           (filter (\<lambda>sz. ico_fs (candidate example_env sz) \<noteq> None) [16, 32, 48])
   \<and> (\<exists>sz \<in> set [16, 32, 48].
          ico_fs (candidate example_env sz) \<noteq> None
          \<and> decoded example_env ico_fs (candidate example_env sz) = Some (Image [4, 5])
          \<and> (\<forall>sz' \<in> set [16, 32, 48]. sz' < sz \<longrightarrow> ico_fs (candidate example_env sz') = None))"
proof -
  let ?evs = "[Print ''Generating favicon.ico...'',
                 Exists (candidate example_env 16),
                 Exists (candidate example_env 32), ImageOpen (candidate example_env 32),
                 Exists (candidate example_env 48), ImageOpen (candidate example_env 48),
                 ImageSave (ico_path example_env) [(16, 16), (32, 32), (48, 48)] (Image [4, 5]) [Image [6]],
                 Print ''Created favicon.ico'']"
  let ?st' = "\<lparr>fs = ico_fs(ico_path example_env \<mapsto> File [4, 5, 6]), trace = ?evs\<rparr>"
  have h1: "create_ico example_env [] \<lparr>fs = ico_fs, trace = []\<rparr> = (Inr (), ?st')"
    by (rule example_create_ico)
  have h2: "trace ?st' = trace \<lparr>fs = ico_fs, trace = []\<rparr> @ ?evs" by simp
  have h3: "ImageSave (ico_path example_env) [(16, 16), (32, 32), (48, 48)] (Image [4, 5]) [Image [6]] \<in> set ?evs"
    by simp
  note t = ico_probe_order [OF h1 h2 h3, unfolded state.select_convs]
  show ?thesis
    using h1 example_ico_files(1) t by (elim conjE) (intro conjI; assumption)
qed

lemma run_success_pngs:
  assumes "fst (run e f) = Inr ()" and "f (SVG_PATH e) = Some (File src)" and "(n, sz) \<in> set PNG_SIZES"
  shows "\<exists>png. svg2png e src sz sz = Some png \<and> fs (snd (run e f)) (png_path e n) = Some (File png)"
proof -
  from run_success_D [OF assms(1)] obtain src' b i16 i32 i48 where
    svg: "f (SVG_PATH e) = Some (File src')"
    and all: "\<forall>(n, sz) \<in> set PNG_SIZES. svg2png e src' sz sz \<noteq> None"
    and run: "run e f = (Inr (), \<lparr>fs = (written e src' PNG_SIZES (made_dirs (FAVICON_DIR e) f))(ico_path e \<mapsto> File b),
              trace = prologue e @ concat (map (raster_events e) PNG_SIZES) @ ico_events e i16 [i32, i48]
                        @ epilogue e\<rparr>)"
    by blast
  from svg assms(2) have src: "src' = src" by simp
  from all assms(3) obtain png where png: "svg2png e src sz sz = Some png"
    by (auto simp: src)
  have "png_path e n \<noteq> ico_path e"
    using assms(3) by (rule ico_not_output(4))
  then have "fs (snd (run e f)) (png_path e n) = Some (File png)"
    by (simp add: run src written_table [OF assms(3) png])
  with png show ?thesis by blast
qed

lemma mkdir_ok_after:
  "mkdir_ok e ((written e src xs (made_dirs (FAVICON_DIR e) f))(ico_path e \<mapsto> File b))"
proof -
  have "\<not> is_file ((written e src xs (made_dirs (FAVICON_DIR e) f))(ico_path e \<mapsto> File b)) q"
    if "prefix q (FAVICON_DIR e)" for q
  proof -
    from that have 1: "q \<noteq> ico_path e"
      by (auto simp: ico_path_def not_prefix_snoc)
    from that have 2: "q \<notin> png_path e ` fst ` set xs"
      by (auto simp: png_path_def not_prefix_snoc)
    from that show ?thesis
      by (simp add: 1 written_other [OF 2] made_dirs_def is_file_def)
  qed
  then show ?thesis
    by (simp add: mkdir_ok_def list_ex_iff)
qed

lemma run_again:
  assumes "fst (run e f) = Inr ()"
  shows "fs (snd (run e f)) (SVG_PATH e) = f (SVG_PATH e) \<and> fst (run e (fs (snd (run e f)))) = Inr ()"
proof -
  from run_success_D [OF assms] obtain src p16 p32 p48 i16 i32 i48 b where
    imp: "importable e" and svg: "f (SVG_PATH e) = Some (File src)"
    and all: "\<forall>(n, sz) \<in> set PNG_SIZES. svg2png e src sz sz \<noteq> None"
    and p: "svg2png e src 16 16 = Some p16" "svg2png e src 32 32 = Some p32" "svg2png e src 48 48 = Some p48"
    and i: "image_open e p16 = Some i16" "image_open e p32 = Some i32" "image_open e p48 = Some i48"
    and b: "image_save_ico e i16 ico_sizes [i32, i48] = Saved b"
    and run: "run e f = (Inr (), \<lparr>fs = (written e src PNG_SIZES (made_dirs (FAVICON_DIR e) f))(ico_path e \<mapsto> File b),
              trace = prologue e @ concat (map (raster_events e) PNG_SIZES) @ ico_events e i16 [i32, i48]
                        @ epilogue e\<rparr>)"
    by blast
  let ?f2 = "(written e src PNG_SIZES (made_dirs (FAVICON_DIR e) f))(ico_path e \<mapsto> File b)"
  have f2: "fs (snd (run e f)) = ?f2" by (simp add: run)
  have svg2: "?f2 (SVG_PATH e) = Some (File src)"
    by (simp add: written_table_svg svg)
  have mk2: "mkdir_ok e ?f2" by (rule mkdir_ok_after)
  have "fst (run e ?f2) = Inr ()"
    by (simp add: run_ico [OF imp mk2 svg2 all p] i b)
  with svg2 svg show ?thesis
    by (simp add: f2)
qed

lemma trace_svg2png:
  "filter is_svg2png (prologue e @ concat (map (raster_events e) PNG_SIZES) @ ico_events e img rest @ epilogue e)
     = map (\<lambda>(filename, sz). Svg2png (SVG_PATH e) (FAVICON_DIR e @ [filename]) sz sz) PNG_SIZES"
  by (simp add: prologue_def epilogue_def ico_events_def PNG_SIZES_def raster_events_def png_path_def)

text \<open>
  C4. The size table has exactly nine entries, with the file names and sizes below, and
  no file name occurs twice. For every entry of the table, the body of the loop of
  \<^verbatim>\<open>main\<close> prints the progress line and calls the rasterizer with the SVG path as source,
  the file of that name in the output directory as target, and the size of the entry as
  both output width and output height; what the rasterizer returns for that width and
  height is the content of the file. In a run that ends normally the calls of the
  rasterizer are exactly those of the table, one per entry, in the order of the table.
\<close>

theorem size_table:
  "length PNG_SIZES = 9
   \<and> map snd PNG_SIZES = [16, 32, 48, 64, 96, 128, 180, 192, 512]
   \<and> map fst PNG_SIZES =
       [''favicon-16x16.png'', ''favicon-32x32.png'', ''favicon-48x48.png'', ''favicon-64x64.png'',
        ''favicon-96x96.png'', ''favicon-128x128.png'', ''apple-touch-icon.png'',
        ''android-chrome-192x192.png'', ''android-chrome-512x512.png'']
   \<and> distinct (map fst PNG_SIZES)
   \<and> (\<forall>(filename, sz) \<in> set PNG_SIZES.
        (let png_path = joinpath (FAVICON_DIR e) filename in svg_to_png e (SVG_PATH e) png_path sz) st =
          (case fs st (SVG_PATH e) of
             Some (File src) \<Rightarrow>
               (case svg2png e src sz sz of
                  Some png \<Rightarrow>
                    (Inr (), \<lparr>fs = (fs st)(FAVICON_DIR e @ [filename] \<mapsto> File png),
                       trace = trace st @
                         [Print (''Generating '' @ filename @ '' ('' @ str_nat sz @ ''x'' @ str_nat sz @ '')...''),
                          Svg2png (SVG_PATH e) (FAVICON_DIR e @ [filename]) sz sz]\<rparr>)
                | None \<Rightarrow>
                    (Inl Svg2pngError, \<lparr>fs = fs st,
                       trace = trace st @
                         [Print (''Generating '' @ filename @ '' ('' @ str_nat sz @ ''x'' @ str_nat sz @ '')...''),
                          Svg2png (SVG_PATH e) (FAVICON_DIR e @ [filename]) sz sz]\<rparr>))
           | _ \<Rightarrow>
               (Inl Svg2pngError, \<lparr>fs = fs st,
                  trace = trace st @
                    [Print (''Generating '' @ filename @ '' ('' @ str_nat sz @ ''x'' @ str_nat sz @ '')...''),
                     Svg2png (SVG_PATH e) (FAVICON_DIR e @ [filename]) sz sz]\<rparr>)))
   \<and> (fst (run e f) = Inr () \<longrightarrow>
        filter is_svg2png (trace (snd (run e f))) =
          map (\<lambda>(filename, sz). Svg2png (SVG_PATH e) (FAVICON_DIR e @ [filename]) sz sz) PNG_SIZES)"
proof (intro conjI impI ballI)
  show "length PNG_SIZES = 9" by (simp add: PNG_SIZES_def)
  show "map snd PNG_SIZES = [16, 32, 48, 64, 96, 128, 180, 192, 512]" by (simp add: PNG_SIZES_def)
  show "map fst PNG_SIZES =
       [''favicon-16x16.png'', ''favicon-32x32.png'', ''favicon-48x48.png'', ''favicon-64x64.png'',
        ''favicon-96x96.png'', ''favicon-128x128.png'', ''apple-touch-icon.png'',
        ''android-chrome-192x192.png'', ''android-chrome-512x512.png'']"
    by (simp add: PNG_SIZES_def)
  show "distinct (map fst PNG_SIZES)" by (rule table_distinct)
next
  fix x assume x: "x \<in> set PNG_SIZES"
  obtain n sz where nsz: "x = (n, sz)" by (cases x)
  with x have "CHR ''/'' \<notin> set n" "n \<noteq> []"
    by (auto dest: table_names_plain)
  then have jp: "joinpath (FAVICON_DIR e) n = png_path e n"
    by (simp add: joinpath_plain png_path_def)
  show "(case x of (filename, sz) \<Rightarrow>
        (let png_path = joinpath (FAVICON_DIR e) filename in svg_to_png e (SVG_PATH e) png_path sz) st =
          (case fs st (SVG_PATH e) of
             Some (File src) \<Rightarrow>
               (case svg2png e src sz sz of
                  Some png \<Rightarrow>
                    (Inr (), \<lparr>fs = (fs st)(FAVICON_DIR e @ [filename] \<mapsto> File png),
                       trace = trace st @
                         [Print (''Generating '' @ filename @ '' ('' @ str_nat sz @ ''x'' @ str_nat sz @ '')...''),
                          Svg2png (SVG_PATH e) (FAVICON_DIR e @ [filename]) sz sz]\<rparr>)
                | None \<Rightarrow>
                    (Inl Svg2pngError, \<lparr>fs = fs st,
                       trace = trace st @
                         [Print (''Generating '' @ filename @ '' ('' @ str_nat sz @ ''x'' @ str_nat sz @ '')...''),
                          Svg2png (SVG_PATH e) (FAVICON_DIR e @ [filename]) sz sz]\<rparr>))
           | _ \<Rightarrow>
               (Inl Svg2pngError, \<lparr>fs = fs st,
                  trace = trace st @
                    [Print (''Generating '' @ filename @ '' ('' @ str_nat sz @ ''x'' @ str_nat sz @ '')...''),
                     Svg2png (SVG_PATH e) (FAVICON_DIR e @ [filename]) sz sz]\<rparr>)))"
    unfolding nsz prod.case Let_def jp svg_to_png_eq
    by (simp add: raster_events_def png_path_def split: option.splits node.splits)
next
  assume "fst (run e f) = Inr ()"
  from run_success_D [OF this] obtain src i16 i32 i48 b where
    "run e f = (Inr (), \<lparr>fs = (written e src PNG_SIZES (made_dirs (FAVICON_DIR e) f))(ico_path e \<mapsto> File b),
              trace = prologue e @ concat (map (raster_events e) PNG_SIZES) @ ico_events e i16 [i32, i48]
                        @ epilogue e\<rparr>)"
    by blast
  then have "trace (snd (run e f)) =
      prologue e @ concat (map (raster_events e) PNG_SIZES) @ ico_events e i16 [i32, i48] @ epilogue e"
    by simp
  then show "filter is_svg2png (trace (snd (run e f))) =
          map (\<lambda>(filename, sz). Svg2png (SVG_PATH e) (FAVICON_DIR e @ [filename]) sz sz) PNG_SIZES"
    by (simp only: trace_svg2png)
qed

theorem size_table_witness:
  "(''favicon-16x16.png'', 16) \<in> set PNG_SIZES
   \<and> svg_to_png example_env (SVG_PATH example_env)
        (joinpath (FAVICON_DIR example_env) ''favicon-16x16.png'') 16 \<lparr>fs = example_fs, trace = []\<rparr> =
       (Inr (), \<lparr>fs = example_fs(FAVICON_DIR example_env @ [''favicon-16x16.png''] \<mapsto> File [1, 2, 3, 16, 16]),
          trace = [Print ''Generating favicon-16x16.png (16x16)...'',
                   Svg2png (SVG_PATH example_env) (FAVICON_DIR example_env @ [''favicon-16x16.png'']) 16 16]\<rparr>)
   \<and> fst (run example_env example_fs) = Inr ()
   \<and> filter is_svg2png (trace (snd (run example_env example_fs))) =
        map (\<lambda>(filename, sz). Svg2png (SVG_PATH example_env) (FAVICON_DIR example_env @ [filename]) sz sz)
          PNG_SIZES"
proof -
  note t = size_table [of example_env "\<lparr>fs = example_fs, trace = []\<rparr>" example_fs]
  have svg: "example_fs (SVG_PATH example_env) = Some (File [1, 2, 3])"
    by (simp add: example_fs_def example_paths)
  have png: "svg2png example_env = (\<lambda>src w h. Some (src @ [w, h]))"
    by (simp add: example_env_def)
  from t have "\<forall>(filename, sz) \<in> set PNG_SIZES.
        (let png_path = joinpath (FAVICON_DIR example_env) filename
         in svg_to_png example_env (SVG_PATH example_env) png_path sz) \<lparr>fs = example_fs, trace = []\<rparr> =
          (case fs \<lparr>fs = example_fs, trace = []\<rparr> (SVG_PATH example_env) of
             Some (File src) \<Rightarrow>
               (case svg2png example_env src sz sz of
                  Some png \<Rightarrow>
                    (Inr (), \<lparr>fs = (fs \<lparr>fs = example_fs, trace = []\<rparr>)(FAVICON_DIR example_env @ [filename] \<mapsto> File png),
                       trace = trace \<lparr>fs = example_fs, trace = []\<rparr> @
                         [Print (''Generating '' @ filename @ '' ('' @ str_nat sz @ ''x'' @ str_nat sz @ '')...''),
                          Svg2png (SVG_PATH example_env) (FAVICON_DIR example_env @ [filename]) sz sz]\<rparr>)
                | None \<Rightarrow>
                    (Inl Svg2pngError, \<lparr>fs = fs \<lparr>fs = example_fs, trace = []\<rparr>,
                       trace = trace \<lparr>fs = example_fs, trace = []\<rparr> @
                         [Print (''Generating '' @ filename @ '' ('' @ str_nat sz @ ''x'' @ str_nat sz @ '')...''),
                          Svg2png (SVG_PATH example_env) (FAVICON_DIR example_env @ [filename]) sz sz]\<rparr>))
           | _ \<Rightarrow>
               (Inl Svg2pngError, \<lparr>fs = fs \<lparr>fs = example_fs, trace = []\<rparr>,
                  trace = trace \<lparr>fs = example_fs, trace = []\<rparr> @
                    [Print (''Generating '' @ filename @ '' ('' @ str_nat sz @ ''x'' @ str_nat sz @ '')...''),
                     Svg2png (SVG_PATH example_env) (FAVICON_DIR example_env @ [filename]) sz sz]\<rparr>))"
    by (elim conjE)
  from bspec [OF this table_ico_members(1)]
  have one: "svg_to_png example_env (SVG_PATH example_env)
        (joinpath (FAVICON_DIR example_env) ''favicon-16x16.png'') 16 \<lparr>fs = example_fs, trace = []\<rparr> =
       (Inr (), \<lparr>fs = example_fs(FAVICON_DIR example_env @ [''favicon-16x16.png''] \<mapsto> File [1, 2, 3, 16, 16]),
          trace = [Print ''Generating favicon-16x16.png (16x16)...'',
                   Svg2png (SVG_PATH example_env) (FAVICON_DIR example_env @ [''favicon-16x16.png'']) 16 16]\<rparr>)"
    by (simp add: svg png str_nat_sizes)
  from t example_run_ok have
    "filter is_svg2png (trace (snd (run example_env example_fs))) =
        map (\<lambda>(filename, sz). Svg2png (SVG_PATH example_env) (FAVICON_DIR example_env @ [filename]) sz sz)
          PNG_SIZES"
    by (elim conjE impE)
  with one example_run_ok table_ico_members(1) show ?thesis
    by (intro conjI)
qed

lemma take_table_names:
  assumes "distinct (map fst xs)" and "(n, sz) \<in> set (drop k xs)"
  shows "n \<notin> fst ` set (take k xs)"
proof -
  have "distinct (map fst (take k xs) @ map fst (drop k xs))"
    using assms(1) by (simp flip: map_append)
  then have "set (map fst (take k xs)) \<inter> set (map fst (drop k xs)) = {}"
    by simp
  moreover have "n \<in> set (map fst (drop k xs))"
    using assms(2) by force
  ultimately show ?thesis by auto
qed

text \<open>
  C7. Let the run reach the rasterization loop (the libraries are importable, the output
  directory can be created, the SVG is a regular file) and let the rasterizer succeed on
  the first k entries of the table and fail on entry k. Then the run ends with the
  rasterizer's exception, uncaught (exit status 1). Its trace ends with the call for
  entry k: no later entry is rasterized, the ICO step is not started and nothing of the
  completion report is printed. The files of the entries before k hold what the
  rasterizer returned for them; the files of entry k and of every later entry, and
  \<^verbatim>\<open>favicon.ico\<close>, are as they were before the run.
\<close>

theorem rasterizer_failure:
  assumes "importable e" and "mkdir_ok e f" and "f (SVG_PATH e) = Some (File src)"
    and "k < length PNG_SIZES"
    and "\<forall>(n, sz) \<in> set (take k PNG_SIZES). svg2png e src sz sz \<noteq> None"
    and "svg2png e src (snd (PNG_SIZES ! k)) (snd (PNG_SIZES ! k)) = None"
  shows "fst (run e f) = Inl Svg2pngError \<and> exit_status (fst (run e f)) = 1
     \<and> trace (snd (run e f)) =
         [ImportLibs, Mkdir (FAVICON_DIR e), Exists (SVG_PATH e),
          Print (''Using SVG source: '' @ path_str (SVG_PATH e)),
          Print (''Output directory: '' @ path_str (FAVICON_DIR e)),
          Print []]
         @ concat (map (raster_events e) (take (Suc k) PNG_SIZES))
     \<and> (\<forall>(n, sz) \<in> set (take k PNG_SIZES).
          fs (snd (run e f)) (png_path e n) = map_option File (svg2png e src sz sz))
     \<and> (\<forall>(n, sz) \<in> set (drop k PNG_SIZES). fs (snd (run e f)) (png_path e n) = f (png_path e n))
     \<and> fs (snd (run e f)) (ico_path e) = f (ico_path e)"
proof -
  let ?ys = "take k PNG_SIZES"
  have split: "PNG_SIZES = ?ys @ (fst (PNG_SIZES ! k), snd (PNG_SIZES ! k)) # drop (Suc k) PNG_SIZES"
    using assms(4) by (simp add: id_take_nth_drop [symmetric])
  note R = run_raster_failure [OF assms(1-3) split assms(5,6)]
  have tk: "take (Suc k) PNG_SIZES = ?ys @ [PNG_SIZES ! k]"
    using assms(4) by (rule take_Suc_conv_app_nth)
  have dist: "distinct (map fst ?ys)"
    using table_distinct by (simp add: take_map [symmetric])
  have before: "fs (snd (run e f)) (png_path e n) = map_option File (svg2png e src sz sz)"
    if "(n, sz) \<in> set ?ys" for n sz
  proof -
    from assms(5) that obtain png where png: "svg2png e src sz sz = Some png" by auto
    from written_at [OF dist that png] show ?thesis
      by (simp add: R png)
  qed
  have after: "fs (snd (run e f)) (png_path e n) = f (png_path e n)"
    if "(n, sz) \<in> set (drop k PNG_SIZES)" for n sz
  proof -
    from take_table_names [OF table_distinct that] have "png_path e n \<notin> png_path e ` fst ` set ?ys"
      by (force simp: png_path_inj)
    then show ?thesis
      by (simp add: R written_other)
  qed
  have "ico_path e \<notin> png_path e ` fst ` set ?ys"
    by (auto simp: ico_path_def png_path_def dest!: in_set_takeD table_names_plain)
  then have ico: "fs (snd (run e f)) (ico_path e) = f (ico_path e)"
    by (simp add: R written_other)
  from before after ico show ?thesis
    by (auto simp: R tk prologue_def)
qed

theorem rasterizer_failure_witness:
  "importable failing_env \<and> mkdir_ok failing_env example_fs
   \<and> example_fs (SVG_PATH failing_env) = Some (File [1, 2, 3])
   \<and> (2 :: nat) < length PNG_SIZES
   \<and> take 2 PNG_SIZES = [(''favicon-16x16.png'', 16), (''favicon-32x32.png'', 32)]
   \<and> svg2png failing_env [1, 2, 3] 16 16 = Some [1, 2, 3, 16, 16]
   \<and> svg2png failing_env [1, 2, 3] 32 32 = Some [1, 2, 3, 32, 32]
   \<and> svg2png failing_env [1, 2, 3] (snd (PNG_SIZES ! 2)) (snd (PNG_SIZES ! 2)) = None
   \<and> fst (run failing_env example_fs) = Inl Svg2pngError
   \<and> exit_status (fst (run failing_env example_fs)) = 1
   \<and> fs (snd (run failing_env example_fs)) (png_path failing_env ''favicon-16x16.png'')
        = Some (File [1, 2, 3, 16, 16])
   \<and> fs (snd (run failing_env example_fs)) (png_path failing_env ''favicon-32x32.png'')
        = Some (File [1, 2, 3, 32, 32])
   \<and> fs (snd (run failing_env example_fs)) (png_path failing_env ''favicon-48x48.png'') = None
   \<and> fs (snd (run failing_env example_fs)) (png_path failing_env ''android-chrome-512x512.png'') = None
   \<and> fs (snd (run failing_env example_fs)) (ico_path failing_env) = None"
proof -
  have paths: "FAVICON_DIR failing_env = FAVICON_DIR example_env" "SVG_PATH failing_env = SVG_PATH example_env"
    by (simp_all add: SVG_PATH_eq FAVICON_DIR_eq PROJECT_ROOT_def SCRIPT_DIR_def failing_env_def)
  have imp: "importable failing_env" by (simp add: importable_def failing_env_def example_env_def)
  have mk: "mkdir_ok failing_env example_fs"
    using example_mkdir_ok(1) by (simp add: mkdir_ok_def paths)
  have svg: "example_fs (SVG_PATH failing_env) = Some (File [1, 2, 3])"
    by (simp add: paths example_paths example_fs_def)
  have k: "(2 :: nat) < length PNG_SIZES" by (simp add: PNG_SIZES_def)
  have tk: "take 2 PNG_SIZES = [(''favicon-16x16.png'', 16), (''favicon-32x32.png'', 32)]"
    by (simp add: PNG_SIZES_def)
  have dr: "drop 2 PNG_SIZES =
     [(''favicon-48x48.png'', 48), (''favicon-64x64.png'', 64), (''favicon-96x96.png'', 96),
      (''favicon-128x128.png'', 128), (''apple-touch-icon.png'', 180),
      (''android-chrome-192x192.png'', 192), (''android-chrome-512x512.png'', 512)]"
    by (simp add: PNG_SIZES_def)
  have ok: "svg2png failing_env [1, 2, 3] 16 16 = Some [1, 2, 3, 16, 16]"
    "svg2png failing_env [1, 2, 3] 32 32 = Some [1, 2, 3, 32, 32]"
    by (simp_all add: failing_env_def)
  have bad: "svg2png failing_env [1, 2, 3] (snd (PNG_SIZES ! 2)) (snd (PNG_SIZES ! 2)) = None"
    by (simp add: failing_env_def PNG_SIZES_def)
  have ras: "svg2png failing_env = (\<lambda>src w h. if w = 48 then None else Some (src @ [w, h]))"
    by (simp add: failing_env_def)
  have before: "\<forall>(n, sz) \<in> set (take 2 PNG_SIZES). svg2png failing_env [1, 2, 3] sz sz \<noteq> None"
    by (simp add: tk ras)
  have none: "example_fs (png_path failing_env ''favicon-48x48.png'') = None"
    "example_fs (png_path failing_env ''android-chrome-512x512.png'') = None"
    "example_fs (ico_path failing_env) = None"
    by (simp_all add: png_path_def ico_path_def paths example_paths example_fs_def empty_fs_def)
  note t = rasterizer_failure [OF imp mk svg k before bad, unfolded tk dr]
  from t imp mk svg k tk bad none show ?thesis
    by (simp add: ras)
qed

text \<open>
  C8. The rasterizer is a function of the library here: what it returns depends on the
  bytes of the SVG and on the requested width and height. In a run that ends normally,
  every PNG of the table holds what the rasterizer returns for the content of the SVG and
  the size of the entry. So any two runs that end normally on file systems with the same
  SVG content leave the same PNGs, whatever else the file systems hold. A run that ends
  normally leaves the SVG as it was, and a second run started on the file system the first
  one left also ends normally and leaves the same PNGs.
\<close>

theorem png_deterministic:
  assumes "fst (run e f) = Inr ()"
  shows "\<exists>src. f (SVG_PATH e) = Some (File src)
     \<and> (\<forall>(n, sz) \<in> set PNG_SIZES.
          \<exists>png. svg2png e src sz sz = Some png \<and> fs (snd (run e f)) (png_path e n) = Some (File png))
     \<and> (\<forall>f'. f' (SVG_PATH e) = Some (File src) \<and> fst (run e f') = Inr () \<longrightarrow>
          (\<forall>(n, sz) \<in> set PNG_SIZES. fs (snd (run e f')) (png_path e n) = fs (snd (run e f)) (png_path e n)))
     \<and> fs (snd (run e f)) (SVG_PATH e) = Some (File src)
     \<and> fst (run e (fs (snd (run e f)))) = Inr ()
     \<and> (\<forall>(n, sz) \<in> set PNG_SIZES.
          fs (snd (run e (fs (snd (run e f))))) (png_path e n) = fs (snd (run e f)) (png_path e n))"
proof -
  from run_success_D [OF assms] obtain src where svg: "f (SVG_PATH e) = Some (File src)"
    by blast
  have same: "fs (snd (run e f')) (png_path e n) = fs (snd (run e f)) (png_path e n)"
    if "f' (SVG_PATH e) = Some (File src)" "fst (run e f') = Inr ()" "(n, sz) \<in> set PNG_SIZES"
    for f' n sz
    using run_success_pngs [OF assms svg that(3)] run_success_pngs [OF that(2) that(1) that(3)]
    by auto
  from run_again [OF assms] svg have again: "fs (snd (run e f)) (SVG_PATH e) = Some (File src)"
    "fst (run e (fs (snd (run e f)))) = Inr ()"
    by simp_all
  have 1: "\<forall>(n, sz) \<in> set PNG_SIZES.
          \<exists>png. svg2png e src sz sz = Some png \<and> fs (snd (run e f)) (png_path e n) = Some (File png)"
    using run_success_pngs [OF assms svg] by auto
  have 2: "\<forall>f'. f' (SVG_PATH e) = Some (File src) \<and> fst (run e f') = Inr () \<longrightarrow>
          (\<forall>(n, sz) \<in> set PNG_SIZES. fs (snd (run e f')) (png_path e n) = fs (snd (run e f)) (png_path e n))"
    using same by auto
  have 3: "\<forall>(n, sz) \<in> set PNG_SIZES.
          fs (snd (run e (fs (snd (run e f))))) (png_path e n) = fs (snd (run e f)) (png_path e n)"
    using same [OF again] by auto
  from svg 1 2 again 3 show ?thesis
    by (intro exI [of _ src] conjI)
qed

theorem png_deterministic_witness:
  "fst (run example_env example_fs) = Inr ()
   \<and> example_fs (SVG_PATH example_env) = Some (File [1, 2, 3])
   \<and> fs (snd (run example_env example_fs)) (png_path example_env ''favicon-16x16.png'')
        = Some (File [1, 2, 3, 16, 16])
   \<and> fst (run example_env (fs (snd (run example_env example_fs)))) = Inr ()
   \<and> fs (snd (run example_env (fs (snd (run example_env example_fs)))))
        (png_path example_env ''favicon-16x16.png'') = Some (File [1, 2, 3, 16, 16])"
proof -
  have svg: "example_fs (SVG_PATH example_env) = Some (File [1, 2, 3])"
    by (simp add: example_fs_def example_paths)
  have png: "svg2png example_env [1, 2, 3] 16 16 = Some [1, 2, 3, 16, 16]"
    by (simp add: example_env_def)
  from png_deterministic [OF example_run_ok] obtain src where
    s: "example_fs (SVG_PATH example_env) = Some (File src)"
    and a: "\<forall>(n, sz) \<in> set PNG_SIZES.
          \<exists>png. svg2png example_env src sz sz = Some png
            \<and> fs (snd (run example_env example_fs)) (png_path example_env n) = Some (File png)"
    and b: "fst (run example_env (fs (snd (run example_env example_fs)))) = Inr ()"
    and c: "\<forall>(n, sz) \<in> set PNG_SIZES.
          fs (snd (run example_env (fs (snd (run example_env example_fs))))) (png_path example_env n)
            = fs (snd (run example_env example_fs)) (png_path example_env n)"
    by blast
  from s svg have src: "src = [1, 2, 3]" by simp
  from bspec [OF a table_ico_members(1)] png
  have 1: "fs (snd (run example_env example_fs)) (png_path example_env ''favicon-16x16.png'')
        = Some (File [1, 2, 3, 16, 16])"
    by (simp add: src)
  from bspec [OF c table_ico_members(1)] 1
  have 2: "fs (snd (run example_env (fs (snd (run example_env example_fs)))))
        (png_path example_env ''favicon-16x16.png'') = Some (File [1, 2, 3, 16, 16])"
    by simp
  from example_run_ok svg 1 b 2 show ?thesis
    by (intro conjI)
qed

lemma run_abnormal_status:
  "fst (run e f) = Inr () \<or> exit_status (fst (run e f)) = 1"
proof (cases "importable e")
  case False
  then show ?thesis by (simp add: run_not_importable)
next
  case imp: True
  show ?thesis
  proof (cases "mkdir_ok e f")
    case False
    with imp show ?thesis by (simp add: run_mkdir_fails)
  next
    case mk: True
    show ?thesis
    proof (cases "f (SVG_PATH e)")
      case None
      then show ?thesis by (simp add: run_svg_missing [OF imp mk])
    next
      case (Some nd)
      show ?thesis
      proof (cases nd)
        case Dir
        with Some show ?thesis
          by (simp add: run_svg_not_file [OF imp mk])
      next
        case (File src)
        with Some have src: "f (SVG_PATH e) = Some (File src)" by simp
        show ?thesis
        proof (cases "\<forall>(n, sz) \<in> set PNG_SIZES. svg2png e src sz sz \<noteq> None")
          case False
          from first_failure_split [OF this] obtain ys m s zs where
            "PNG_SIZES = ys @ (m, s) # zs" "\<forall>(n, sz) \<in> set ys. svg2png e src sz sz \<noteq> None"
            "svg2png e src s s = None" by blast
          from run_raster_failure [OF imp mk src this] show ?thesis
            by simp
        next
          case all: True
          from bspec [OF all table_ico_members(1)] bspec [OF all table_ico_members(2)]
            bspec [OF all table_ico_members(3)]
          obtain p16 p32 p48 where "svg2png e src 16 16 = Some p16"
            "svg2png e src 32 32 = Some p32" "svg2png e src 48 48 = Some p48"
            by auto
          note eq = run_ico [OF imp mk src all this]
          show ?thesis
            unfolding eq by (simp split: option.splits save_result.splits)
        qed
      qed
    qed
  qed
qed

text \<open>
  C6, as written, fails: the guard is \<^verbatim>\<open>except ImportError\<close>, so the install guidance is
  printed only when the import raises \<^verbatim>\<open>ImportError\<close>. When a library cannot be imported
  because its import raises another exception (\<^verbatim>\<open>OSError\<close> from \<^verbatim>\<open>cairosvg\<close> when the
  cairo shared library is missing), the exception is not caught: the run ends with it and
  nothing is printed.
\<close>

theorem import_guard_counterexample:
  "import_result os_error_env \<noteq> Imported
   \<and> run os_error_env example_fs = (Inl OtherImportError, \<lparr>fs = example_fs, trace = [ImportLibs]\<rparr>)
   \<and> Print ''Required packages not found. Please install:''
        \<notin> set (trace (snd (run os_error_env example_fs)))
   \<and> Print ''  pip install cairosvg pillow'' \<notin> set (trace (snd (run os_error_env example_fs)))"
proof -
  have "import_result os_error_env = RaisesOtherError" by (simp add: os_error_env_def)
  then show ?thesis by (simp add: run_import_other)
qed

text \<open>
  C6, amended. If the import of the libraries raises \<^verbatim>\<open>ImportError\<close>, the process prints
  the two lines of install guidance and exits with status 1; the only events of the run
  are the import and the two printed lines, and the file system is the one the run started
  with, so no file operation has happened. If the import raises another exception, the
  exception ends the run with status 1: nothing is printed, and again no file operation
  has happened. The exit status is 0 on a fully successful run, and only then: when the
  libraries are imported, the output directory can be created, the SVG is a regular file,
  the rasterizer succeeds on every entry of the table, the three candidate images are
  decoded and the encoder succeeds, the run is the complete one (directory, nine PNGs,
  \<^verbatim>\<open>favicon.ico\<close>, completion report) and its exit status is 0; and every run with exit
  status 0 is such a run.
\<close>

theorem import_guard:
  "(import_result e = RaisesImportError \<longrightarrow>
      run e f = (Inl (SystemExit 1),
        \<lparr>fs = f, trace = [ImportLibs, Print ''Required packages not found. Please install:'',
                         Print ''  pip install cairosvg pillow'']\<rparr>)
      \<and> exit_status (fst (run e f)) = 1)
   \<and> (import_result e = RaisesOtherError \<longrightarrow>
      run e f = (Inl OtherImportError, \<lparr>fs = f, trace = [ImportLibs]\<rparr>)
      \<and> exit_status (fst (run e f)) = 1)
   \<and> (import_result e = Imported \<and> mkdir_ok e f \<and> f (SVG_PATH e) = Some (File src)
       \<and> (\<forall>(n, sz) \<in> set PNG_SIZES. svg2png e src sz sz \<noteq> None)
       \<and> svg2png e src 16 16 = Some p16 \<and> svg2png e src 32 32 = Some p32
       \<and> svg2png e src 48 48 = Some p48
       \<and> image_open e p16 = Some i16 \<and> image_open e p32 = Some i32 \<and> image_open e p48 = Some i48
       \<and> image_save_ico e i16 [(16, 16), (32, 32), (48, 48)] [i32, i48] = Saved b \<longrightarrow>
      run e f =
        (Inr (), \<lparr>fs = (written e src PNG_SIZES (made_dirs (FAVICON_DIR e) f))(ico_path e \<mapsto> File b),
           trace = prologue e @ concat (map (raster_events e) PNG_SIZES)
                     @ ico_events e i16 [i32, i48] @ epilogue e\<rparr>)
      \<and> exit_status (fst (run e f)) = 0)
   \<and> (exit_status (fst (run e f)) = 0 \<longrightarrow>
      (\<exists>src p16 p32 p48 i16 i32 i48 b.
         import_result e = Imported \<and> mkdir_ok e f \<and> f (SVG_PATH e) = Some (File src)
         \<and> (\<forall>(n, sz) \<in> set PNG_SIZES. svg2png e src sz sz \<noteq> None)
         \<and> svg2png e src 16 16 = Some p16 \<and> svg2png e src 32 32 = Some p32
         \<and> svg2png e src 48 48 = Some p48
         \<and> image_open e p16 = Some i16 \<and> image_open e p32 = Some i32 \<and> image_open e p48 = Some i48
         \<and> image_save_ico e i16 [(16, 16), (32, 32), (48, 48)] [i32, i48] = Saved b
         \<and> run e f =
             (Inr (), \<lparr>fs = (written e src PNG_SIZES (made_dirs (FAVICON_DIR e) f))(ico_path e \<mapsto> File b),
                trace = prologue e @ concat (map (raster_events e) PNG_SIZES)
                          @ ico_events e i16 [i32, i48] @ epilogue e\<rparr>)))"
proof (intro conjI impI)
  assume "import_result e = RaisesImportError"
  then show "run e f = (Inl (SystemExit 1),
        \<lparr>fs = f, trace = [ImportLibs, Print ''Required packages not found. Please install:'',
                         Print ''  pip install cairosvg pillow'']\<rparr>)"
    and "exit_status (fst (run e f)) = 1"
    by (simp_all add: run_import_error)
next
  assume "import_result e = RaisesOtherError"
  then show "run e f = (Inl OtherImportError, \<lparr>fs = f, trace = [ImportLibs]\<rparr>)"
    and "exit_status (fst (run e f)) = 1"
    by (simp_all add: run_import_other)
next
  assume a: "import_result e = Imported \<and> mkdir_ok e f \<and> f (SVG_PATH e) = Some (File src)
       \<and> (\<forall>(n, sz) \<in> set PNG_SIZES. svg2png e src sz sz \<noteq> None)
       \<and> svg2png e src 16 16 = Some p16 \<and> svg2png e src 32 32 = Some p32
       \<and> svg2png e src 48 48 = Some p48
       \<and> image_open e p16 = Some i16 \<and> image_open e p32 = Some i32 \<and> image_open e p48 = Some i48
       \<and> image_save_ico e i16 [(16, 16), (32, 32), (48, 48)] [i32, i48] = Saved b"
  then have imp: "importable e" and mk: "mkdir_ok e f" and src: "f (SVG_PATH e) = Some (File src)"
    and all: "\<forall>(n, sz) \<in> set PNG_SIZES. svg2png e src sz sz \<noteq> None"
    and p: "svg2png e src 16 16 = Some p16" "svg2png e src 32 32 = Some p32" "svg2png e src 48 48 = Some p48"
    and i: "image_open e p16 = Some i16" "image_open e p32 = Some i32" "image_open e p48 = Some i48"
    and b: "image_save_ico e i16 ico_sizes [i32, i48] = Saved b"
    by (simp_all add: importable_def ico_sizes_def)
  show run: "run e f =
        (Inr (), \<lparr>fs = (written e src PNG_SIZES (made_dirs (FAVICON_DIR e) f))(ico_path e \<mapsto> File b),
           trace = prologue e @ concat (map (raster_events e) PNG_SIZES)
                     @ ico_events e i16 [i32, i48] @ epilogue e\<rparr>)"
    by (simp add: run_ico [OF imp mk src all p] i b)
  show "exit_status (fst (run e f)) = 0"
    by (simp add: run)
next
  assume "exit_status (fst (run e f)) = 0"
  with run_abnormal_status [of e f] have "fst (run e f) = Inr ()"
    by auto
  from run_success_D [OF this]
  show "\<exists>src p16 p32 p48 i16 i32 i48 b.
         import_result e = Imported \<and> mkdir_ok e f \<and> f (SVG_PATH e) = Some (File src)
         \<and> (\<forall>(n, sz) \<in> set PNG_SIZES. svg2png e src sz sz \<noteq> None)
         \<and> svg2png e src 16 16 = Some p16 \<and> svg2png e src 32 32 = Some p32
         \<and> svg2png e src 48 48 = Some p48
         \<and> image_open e p16 = Some i16 \<and> image_open e p32 = Some i32 \<and> image_open e p48 = Some i48
         \<and> image_save_ico e i16 [(16, 16), (32, 32), (48, 48)] [i32, i48] = Saved b
         \<and> run e f =
             (Inr (), \<lparr>fs = (written e src PNG_SIZES (made_dirs (FAVICON_DIR e) f))(ico_path e \<mapsto> File b),
                trace = prologue e @ concat (map (raster_events e) PNG_SIZES)
                          @ ico_events e i16 [i32, i48] @ epilogue e\<rparr>)"
    unfolding importable_def ico_sizes_def by blast
qed

theorem import_guard_witness:
  "import_result no_libs_env = RaisesImportError
   \<and> run no_libs_env example_fs = (Inl (SystemExit 1),
        \<lparr>fs = example_fs, trace = [ImportLibs, Print ''Required packages not found. Please install:'',
                         Print ''  pip install cairosvg pillow'']\<rparr>)
   \<and> exit_status (fst (run no_libs_env example_fs)) = 1
   \<and> import_result os_error_env = RaisesOtherError
   \<and> run os_error_env example_fs = (Inl OtherImportError, \<lparr>fs = example_fs, trace = [ImportLibs]\<rparr>)
   \<and> exit_status (fst (run os_error_env example_fs)) = 1
   \<and> import_result example_env = Imported \<and> mkdir_ok example_env example_fs
   \<and> example_fs (SVG_PATH example_env) = Some (File [1, 2, 3])
   \<and> image_save_ico example_env (Image [1, 2, 3, 16, 16]) [(16, 16), (32, 32), (48, 48)]
        [Image [1, 2, 3, 32, 32], Image [1, 2, 3, 48, 48]]
        = Saved [1, 2, 3, 16, 16, 1, 2, 3, 32, 32, 1, 2, 3, 48, 48]
   \<and> run example_env example_fs =
        (Inr (),
         \<lparr>fs = (written example_env [1, 2, 3] PNG_SIZES (made_dirs (FAVICON_DIR example_env) example_fs))
                 (ico_path example_env \<mapsto> File [1, 2, 3, 16, 16, 1, 2, 3, 32, 32, 1, 2, 3, 48, 48]),
          trace = prologue example_env @ concat (map (raster_events example_env) PNG_SIZES)
                    @ ico_events example_env (Image [1, 2, 3, 16, 16])
                        [Image [1, 2, 3, 32, 32], Image [1, 2, 3, 48, 48]]
                    @ epilogue example_env\<rparr>)
   \<and> exit_status (fst (run example_env example_fs)) = 0"
proof -
  have n: "import_result no_libs_env = RaisesImportError" by (simp add: no_libs_env_def)
  have o: "import_result os_error_env = RaisesOtherError" by (simp add: os_error_env_def)
  have i: "import_result example_env = Imported" by (simp add: example_env_def)
  have svg: "example_fs (SVG_PATH example_env) = Some (File [1, 2, 3])"
    by (simp add: example_fs_def example_paths)
  have ras: "svg2png example_env = (\<lambda>src w h. Some (src @ [w, h]))"
    by (simp add: example_env_def)
  have opn: "image_open example_env = (\<lambda>b. Some (Image b))"
    by (simp add: example_env_def)
  have sav: "image_save_ico example_env (Image [1, 2, 3, 16, 16]) [(16, 16), (32, 32), (48, 48)]
        [Image [1, 2, 3, 32, 32], Image [1, 2, 3, 48, 48]]
        = Saved [1, 2, 3, 16, 16, 1, 2, 3, 32, 32, 1, 2, 3, 48, 48]"
    by (simp add: example_env_def)
  have all: "\<forall>(n, sz) \<in> set PNG_SIZES. svg2png example_env [1, 2, 3] sz sz \<noteq> None"
    by (simp add: ras)
  have c: "import_result example_env = Imported \<and> mkdir_ok example_env example_fs
       \<and> example_fs (SVG_PATH example_env) = Some (File [1, 2, 3])
       \<and> (\<forall>(n, sz) \<in> set PNG_SIZES. svg2png example_env [1, 2, 3] sz sz \<noteq> None)
       \<and> svg2png example_env [1, 2, 3] 16 16 = Some [1, 2, 3, 16, 16]
       \<and> svg2png example_env [1, 2, 3] 32 32 = Some [1, 2, 3, 32, 32]
       \<and> svg2png example_env [1, 2, 3] 48 48 = Some [1, 2, 3, 48, 48]
       \<and> image_open example_env [1, 2, 3, 16, 16] = Some (Image [1, 2, 3, 16, 16])
       \<and> image_open example_env [1, 2, 3, 32, 32] = Some (Image [1, 2, 3, 32, 32])
       \<and> image_open example_env [1, 2, 3, 48, 48] = Some (Image [1, 2, 3, 48, 48])
       \<and> image_save_ico example_env (Image [1, 2, 3, 16, 16]) [(16, 16), (32, 32), (48, 48)]
            [Image [1, 2, 3, 32, 32], Image [1, 2, 3, 48, 48]]
            = Saved [1, 2, 3, 16, 16, 1, 2, 3, 32, 32, 1, 2, 3, 48, 48]"
    using i example_mkdir_ok(1) svg all sav by (simp add: ras opn)
  note t1 = import_guard [of no_libs_env example_fs, THEN conjunct1, rule_format, OF n]
  note t2 = import_guard [of os_error_env example_fs, THEN conjunct2, THEN conjunct1, rule_format, OF o]
  note t3 = import_guard [of example_env example_fs "[1, 2, 3]" "[1, 2, 3, 16, 16]" "[1, 2, 3, 32, 32]"
      "[1, 2, 3, 48, 48]" "Image [1, 2, 3, 16, 16]" "Image [1, 2, 3, 32, 32]" "Image [1, 2, 3, 48, 48]"
      "[1, 2, 3, 16, 16, 1, 2, 3, 32, 32, 1, 2, 3, 48, 48]",
      THEN conjunct2, THEN conjunct2, THEN conjunct1, rule_format, OF c]
  from n o i example_mkdir_ok(1) svg sav t1 t2 t3 show ?thesis
    by (elim conjE) (intro conjI; assumption)
qed

end
